theory Spec2Isabelle
  imports Main
begin

section \<open>The chi request multiplexer (mux.go)\<close>

text \<open>
  A shallow embedding of \<^verbatim>\<open>mux.go\<close>. Go pointers (\<^verbatim>\<open>*Mux\<close>, \<^verbatim>\<open>*node\<close>,
  \<^verbatim>\<open>*Context\<close>) are references (natural numbers) into an explicit store, because routers
  share one routing tree and a request shares one routing context between nested routers.
  Go closures of type \<^verbatim>\<open>http.Handler\<close> are first-order values of the datatype
  \<open>handler\<close>; a panic is a result value that carries the store as it was when the panic
  was raised.
\<close>

subsection \<open>Methods\<close>

text \<open>
  Modelled from the spec: the declaration of \<^verbatim>\<open>Method\<close> and of its constants is not in
  \<^verbatim>\<open>mux.go\<close>. A \<^verbatim>\<open>Method\<close> is a bit-flag value over the nine real methods and the
  synthetic flag \<^verbatim>\<open>_STUB\<close>; it is a set of flags here, \<^verbatim>\<open>|\<close> is union, and \<^verbatim>\<open>ANY\<close> is
  the union of the nine real methods. A value with a single bit set, as \<^verbatim>\<open>MethodMap\<close>
  returns and as the handler map of a route is keyed by, is a \<open>flag\<close>.
\<close>

datatype flag = CONNECT | DELETE | GET | HEAD | OPTIONS | PATCH | POST | PUT | TRACE | STUB

type_synonym Method = "flag set"

definition ANY :: Method where
  "ANY = {CONNECT, DELETE, GET, HEAD, OPTIONS, PATCH, POST, PUT, TRACE}"

text \<open>
  Modelled from the spec: the table \<^verbatim>\<open>MethodMap\<close> is not in \<^verbatim>\<open>mux.go\<close>; it maps the names
  of the nine real methods to their flags and knows no other string.
\<close>

definition MethodMap :: "string \<Rightarrow> flag option" where
  "MethodMap = map_of
     [(''CONNECT'', CONNECT), (''DELETE'', DELETE), (''GET'', GET), (''HEAD'', HEAD),
      (''OPTIONS'', OPTIONS), (''PATCH'', PATCH), (''POST'', POST), (''PUT'', PUT),
      (''TRACE'', TRACE)]"

subsection \<open>Handlers and middleware\<close>

text \<open>
  The values of type \<^verbatim>\<open>http.Handler\<close> that occur: a handler of the user (opaque, named by a
  number), the standard library's \<^verbatim>\<open>http.NotFound\<close>, a router (\<^verbatim>\<open>*Mux\<close>), the method value
  \<^verbatim>\<open>mx.routeHTTP\<close>, the closure \<^verbatim>\<open>subHandler\<close> that \<^verbatim>\<open>Mount\<close> builds around \<^verbatim>\<open>handler\<close>,
  and the result of applying a middleware (opaque, named by a number) to a handler.
\<close>

datatype handler =
    UserHandler nat
  | HttpNotFound
  | MuxHandler nat
  | RouteHTTP nat
  | SubHandler handler
  | Wrapped nat handler

type_synonym Middlewares = "nat list"

text \<open>
  Modelled from the spec: \<^verbatim>\<open>chain\<close> and \<^verbatim>\<open>Chain(...).Handler\<close> are not in \<^verbatim>\<open>mux.go\<close>.
  The terminal handler is wrapped with each middleware in reverse registration order, so
  that the first middleware is outermost; an empty sequence returns the handler unchanged.
\<close>

definition chain :: "Middlewares \<Rightarrow> handler \<Rightarrow> handler" where
  "chain mws endpoint = foldr Wrapped mws endpoint"

text \<open>
  Modelled from the spec: \<^verbatim>\<open>Chain(middlewares...).Handler(h)\<close>, which is not in \<^verbatim>\<open>mux.go\<close>,
  wraps the handler with the middleware sequence in the same way.
\<close>

definition Chain_Handler :: "Middlewares \<Rightarrow> handler \<Rightarrow> handler" where
  "Chain_Handler mws h = chain mws h"

subsection \<open>The pattern store\<close>

text \<open>
  Modelled from the spec: the routing tree (\<^verbatim>\<open>node\<close>, \<^verbatim>\<open>InsertRoute\<close>, \<^verbatim>\<open>findPattern\<close>,
  \<^verbatim>\<open>FindRoute\<close>) is not in \<^verbatim>\<open>mux.go\<close>. The store holds the registered routes, each a
  method-set, a pattern and a handler, optionally tagged with a mounted sub-router, in
  the order of registration. \<^verbatim>\<open>InsertRoute\<close> stores a binding and returns its handle (the
  position of the route); \<^verbatim>\<open>findPattern\<close> is the exact pattern existence check.
\<close>

record Route =
  route_method :: Method
  route_pattern :: string
  route_handler :: handler
  subrouter :: "nat option"

type_synonym node = "Route list"

text \<open>
  Modelled from the spec: \<^verbatim>\<open>InsertRoute\<close>, which is not in \<^verbatim>\<open>mux.go\<close>, stores the binding
  after the routes that are there and returns its position.
\<close>

definition InsertRoute :: "Method \<Rightarrow> string \<Rightarrow> handler \<Rightarrow> node \<Rightarrow> node \<times> nat" where
  "InsertRoute meth pat h t =
     (t @ [\<lparr>route_method = meth, route_pattern = pat, route_handler = h, subrouter = None\<rparr>],
      length t)"

text \<open>
  Modelled from the spec: \<^verbatim>\<open>findPattern\<close>, which is not in \<^verbatim>\<open>mux.go\<close>, returns the first route
  with exactly that pattern, or nil.
\<close>

definition findPattern :: "node \<Rightarrow> string \<Rightarrow> Route option" where
  "findPattern t pat = find (\<lambda>r. route_pattern r = pat) t"

subsection \<open>Routing contexts and requests\<close>

text \<open>
  Modelled from the spec: \<^verbatim>\<open>Context\<close>, \<^verbatim>\<open>reset\<close>, \<^verbatim>\<open>NewRouteContext\<close>, \<^verbatim>\<open>RouteContext\<close>
  and \<^verbatim>\<open>Params.Del\<close> are not in \<^verbatim>\<open>mux.go\<close>. A routing context has a mapping from
  parameter names to captured values (keys unique), the override path \<^verbatim>\<open>RoutePath\<close>
  (empty: use the path of the request) and a back-reference to the enclosing request
  scope. A request scope (\<^verbatim>\<open>context.Context\<close>) is the background scope, a scope that adds
  a value under a key other than \<^verbatim>\<open>RouteCtxKey\<close>, or a routing context.
\<close>

datatype reqscope = Background | WithValue string string reqscope | RouteScope nat

record Context =
  Params :: "string \<rightharpoonup> string"
  RoutePath :: string
  parent :: reqscope

text \<open>
  Modelled from the spec: \<^verbatim>\<open>ctx.Value(RouteCtxKey)\<close>, the lookup that \<^verbatim>\<open>mux.go\<close> uses and does
  not define, gives the routing context that a request scope carries, if any.
\<close>

fun routeCtxValue :: "reqscope \<Rightarrow> nat option" where
  "routeCtxValue Background = None"
| "routeCtxValue (WithValue k v p) = routeCtxValue p"
| "routeCtxValue (RouteScope c) = Some c"

text \<open>
  Modelled from the spec: \<^verbatim>\<open>reset\<close>, which is not in \<^verbatim>\<open>mux.go\<close>, clears the parameters and
  the override path.
\<close>

definition reset :: "Context \<Rightarrow> Context" where
  "reset x = x\<lparr>Params := Map.empty, RoutePath := []\<rparr>"

text \<open>
  Modelled from the spec: \<^verbatim>\<open>Params.Del(key)\<close>, which is not in \<^verbatim>\<open>mux.go\<close>, removes the entry
  of the key and returns its value (the forwarding handler of \<^verbatim>\<open>Mount\<close> consumes the
  captured wildcard with it), the empty string when there is none.
\<close>

definition Params_Del :: "(string \<rightharpoonup> string) \<Rightarrow> string \<Rightarrow> string \<times> (string \<rightharpoonup> string)" where
  "Params_Del ps k = ((case ps k of None \<Rightarrow> [] | Some v \<Rightarrow> v), ps(k := None))"

record request =
  req_Method :: string
  URL_Path :: string
  req_Context :: reqscope

text \<open>\<^verbatim>\<open>r.WithContext(rctx)\<close>: the request with the routing context as its scope.\<close>

definition WithContext :: "request \<Rightarrow> nat \<Rightarrow> request" where
  "WithContext r c = r\<lparr>req_Context := RouteScope c\<rparr>"

subsection \<open>Routers and the store\<close>

text \<open>
  \<^verbatim>\<open>sync.Pool\<close>: the items put back and not yet taken, and whether the constructor \<^verbatim>\<open>New\<close>
  is set. \<^verbatim>\<open>NewMux\<close> sets it; the struct literal in \<^verbatim>\<open>Chain\<close> leaves the pool zero-valued.
\<close>

record Pool =
  items :: "nat list"
  New_set :: bool

record Mux =
  tree :: nat
  middlewares :: Middlewares
  inline :: bool
  handler :: "handler option"
  pool :: Pool
  notFoundHandler :: "handler option"

datatype resp_event = WriteHeader nat | Write string

record world =
  muxes :: "nat \<Rightarrow> Mux"
  next_mux :: nat
  trees :: "nat \<Rightarrow> node"
  next_tree :: nat
  ctxs :: "nat \<Rightarrow> Context"
  next_ctx :: nat
  resp :: "resp_event list"

text \<open>
  The panics of \<^verbatim>\<open>mux.go\<close>, in the order of the file: \<^verbatim>\<open>ServeHTTP\<close> on a mux with no
  handlers, \<^verbatim>\<open>Use\<close> after the handler was built, \<^verbatim>\<open>Mount\<close> on an existing path, \<^verbatim>\<open>handle\<close>
  with a pattern that does not begin with a slash; then the run-time panic of a failed
  type assertion \<^verbatim>\<open>.(*Context)\<close>, and a panic raised by a handler of the user.
\<close>

datatype panic =
    NoHandlers
  | MiddlewareAfterRoutes
  | MountOnExistingPath string
  | PatternNotRooted string
  | NilContext
  | HandlerPanic string

datatype 'a res = Returned 'a | Panicked panic | Diverged

text \<open>
  What invoking a handler on a request does to the store: the type of \<^verbatim>\<open>h.ServeHTTP(w, r)\<close>
  as a function of the handler. The response writer is the field \<open>resp\<close> of the store.
\<close>

type_synonym serving = "handler \<Rightarrow> request \<Rightarrow> world \<Rightarrow> unit res \<times> world"

text \<open>The type of \<^verbatim>\<open>FindRoute\<close>: the routing context as the lookup leaves it, and the handlers
  of the matched route by method, or none.\<close>

type_synonym finding = "node \<Rightarrow> Context \<Rightarrow> string \<Rightarrow> Context \<times> (flag \<rightharpoonup> handler) option"

text \<open>
  One statement after another: a panic ends the function with the store as it is, and
  the statements that follow are not run.
\<close>

definition andThen :: "'a res \<times> world \<Rightarrow> ('a \<Rightarrow> world \<Rightarrow> 'b res \<times> world) \<Rightarrow> 'b res \<times> world" where
  "andThen x f =
     (case x of
        (Returned a, w) \<Rightarrow> f a w
      | (Panicked e, w) \<Rightarrow> (Panicked e, w)
      | (Diverged, w) \<Rightarrow> (Diverged, w))"

text \<open>
  Modelled from the spec: \<^verbatim>\<open>NewRouteContext\<close>, which is not in \<^verbatim>\<open>mux.go\<close>, allocates a routing
  context with no parameters and no override path.
\<close>

definition NewRouteContext :: "world \<Rightarrow> nat \<times> world" where
  "NewRouteContext w =
     (next_ctx w,
      w\<lparr>ctxs := (ctxs w)(next_ctx w := \<lparr>Params = Map.empty, RoutePath = [], parent = Background\<rparr>),
        next_ctx := Suc (next_ctx w)\<rparr>)"

definition NewMux :: "world \<Rightarrow> nat \<times> world" where
  "NewMux w =
     (next_mux w,
      w\<lparr>trees := (trees w)(next_tree w := []),
        next_tree := Suc (next_tree w),
        muxes := (muxes w)(next_mux w :=
          \<lparr>tree = next_tree w, middlewares = [], inline = False, handler = None,
           pool = \<lparr>items = [], New_set = True\<rparr>, notFoundHandler = None\<rparr>),
        next_mux := Suc (next_mux w)\<rparr>)"

subsection \<open>Registration\<close>

definition Use :: "nat \<Rightarrow> Middlewares \<Rightarrow> world \<Rightarrow> unit res \<times> world" where
  "Use m mws w =
     (if handler (muxes w m) \<noteq> None then (Panicked MiddlewareAfterRoutes, w)
      else (Returned (),
            w\<lparr>muxes := (muxes w)(m := (muxes w m)\<lparr>middlewares := middlewares (muxes w m) @ mws\<rparr>)\<rparr>))"

definition NotFound :: "nat \<Rightarrow> handler \<Rightarrow> world \<Rightarrow> world" where
  "NotFound m h w = w\<lparr>muxes := (muxes w)(m := (muxes w m)\<lparr>notFoundHandler := Some h\<rparr>)\<rparr>"

definition NotFoundHandler :: "Mux \<Rightarrow> handler" where
  "NotFoundHandler mx = (case notFoundHandler mx of Some h \<Rightarrow> h | None \<Rightarrow> HttpNotFound)"

definition buildRouteHandler :: "nat \<Rightarrow> world \<Rightarrow> world" where
  "buildRouteHandler m w =
     w\<lparr>muxes := (muxes w)(m := (muxes w m)
         \<lparr>handler := Some (chain (middlewares (muxes w m)) (RouteHTTP m))\<rparr>)\<rparr>"

definition handle :: "nat \<Rightarrow> Method \<Rightarrow> string \<Rightarrow> handler \<Rightarrow> world \<Rightarrow> nat res \<times> world" where
  "handle m meth pat h w =
     (if pat = [] \<or> hd pat \<noteq> CHR ''/'' then (Panicked (PatternNotRooted pat), w)
      else
        let w1 = (if \<not> inline (muxes w m) \<and> handler (muxes w m) = None
                  then buildRouteHandler m w else w);
            w2 = (if inline (muxes w1 m)
                  then w1\<lparr>muxes := (muxes w1)(m := (muxes w1 m)\<lparr>handler := Some (RouteHTTP m)\<rparr>)\<rparr>
                  else w1);
            h' = (if inline (muxes w1 m) then Chain_Handler (middlewares (muxes w1 m)) h else h);
            t = tree (muxes w2 m);
            (t', n) = InsertRoute meth pat h' (trees w2 t)
        in (Returned n, w2\<lparr>trees := (trees w2)(t := t')\<rparr>))"

definition Handle :: "nat \<Rightarrow> Method \<Rightarrow> string \<Rightarrow> handler \<Rightarrow> world \<Rightarrow> unit res \<times> world" where
  "Handle m meth pat h w = andThen (handle m meth pat h w) (\<lambda>n w'. (Returned (), w'))"

definition Get :: "nat \<Rightarrow> string \<Rightarrow> handler \<Rightarrow> world \<Rightarrow> unit res \<times> world" where
  "Get m pat h w = andThen (handle m {GET} pat h w) (\<lambda>n w'. (Returned (), w'))"

definition Chain :: "nat \<Rightarrow> Middlewares \<Rightarrow> world \<Rightarrow> nat \<times> world" where
  "Chain m mws w =
     (let w1 = (if \<not> inline (muxes w m) \<and> handler (muxes w m) = None
                then buildRouteHandler m w else w);
          mws' = (if inline (muxes w1 m) then middlewares (muxes w1 m) else []) @ mws;
          im = next_mux w1
      in (im,
          w1\<lparr>muxes := (muxes w1)(im :=
                \<lparr>tree = tree (muxes w1 m), middlewares = mws', inline = True, handler = None,
                 pool = \<lparr>items = [], New_set = False\<rparr>, notFoundHandler = None\<rparr>),
             next_mux := Suc im\<rparr>))"

definition Mount :: "nat \<Rightarrow> string \<Rightarrow> handler \<Rightarrow> world \<Rightarrow> unit res \<times> world" where
  "Mount m pat h w =
     (if findPattern (trees w (tree (muxes w m))) (pat @ ''*'') \<noteq> None
         \<or> findPattern (trees w (tree (muxes w m))) (pat @ ''/*'') \<noteq> None
      then (Panicked (MountOnExistingPath pat), w)
      else
        let subr = (case h of MuxHandler s \<Rightarrow> Some s | _ \<Rightarrow> None);
            w1 = (case subr of
                    Some s \<Rightarrow>
                      (case notFoundHandler (muxes w m) of
                         Some nf \<Rightarrow> if notFoundHandler (muxes w s) = None then NotFound s nf w else w
                       | None \<Rightarrow> w)
                  | None \<Rightarrow> w);
            subH = SubHandler h
        in
          andThen
            (if pat = [] \<or> last pat \<noteq> CHR ''/''
             then
               andThen (handle m (ANY \<union> {STUB}) pat subH w1) (\<lambda>_ w2.
               andThen (handle m (ANY \<union> {STUB}) (pat @ ''/'') (NotFoundHandler (muxes w2 m)) w2) (\<lambda>_ w3.
               (Returned (pat @ ''/''), w3)))
             else (Returned pat, w1))
            (\<lambda>pat' w4.
               andThen
                 (handle m (if subr \<noteq> None then ANY \<union> {STUB} else ANY) (pat' @ ''*'') subH w4)
                 (\<lambda>n w5.
                    (Returned (),
                     (case subr of
                        Some s \<Rightarrow>
                          w5\<lparr>trees := (trees w5)(tree (muxes w5 m) :=
                               (trees w5 (tree (muxes w5 m)))
                                 [n := (trees w5 (tree (muxes w5 m)) ! n)\<lparr>subrouter := Some s\<rparr>])\<rparr>
                      | None \<Rightarrow> w5)))))"

subsection \<open>Dispatch\<close>

text \<open>
  \<^verbatim>\<open>mx.pool.Get()\<close> takes an item of the pool, or builds one with \<^verbatim>\<open>New\<close> when the pool is
  empty, or returns nil when there is no constructor; \<^verbatim>\<open>mx.pool.Put\<close> gives an item back.
\<close>

definition pool_Get :: "nat \<Rightarrow> world \<Rightarrow> nat option \<times> world" where
  "pool_Get m w =
     (case items (pool (muxes w m)) of
        c # cs \<Rightarrow>
          (Some c, w\<lparr>muxes := (muxes w)(m := (muxes w m)\<lparr>pool := (pool (muxes w m))\<lparr>items := cs\<rparr>\<rparr>)\<rparr>)
      | [] \<Rightarrow>
          if New_set (pool (muxes w m))
          then (case NewRouteContext w of (c, w') \<Rightarrow> (Some c, w'))
          else (None, w))"

definition pool_Put :: "nat \<Rightarrow> nat \<Rightarrow> world \<Rightarrow> world" where
  "pool_Put m c w =
     w\<lparr>muxes := (muxes w)(m := (muxes w m)
         \<lparr>pool := (pool (muxes w m))\<lparr>items := c # items (pool (muxes w m))\<rparr>\<rparr>)\<rparr>"

definition methodNotAllowedHandler :: "request \<Rightarrow> world \<Rightarrow> unit res \<times> world" where
  "methodNotAllowedHandler r w = (Returned (), w\<lparr>resp := resp w @ [WriteHeader 405, Write []]\<rparr>)"

definition ServeHTTP :: "serving \<Rightarrow> nat \<Rightarrow> request \<Rightarrow> world \<Rightarrow> unit res \<times> world" where
  "ServeHTTP call m r w =
     (case handler (muxes w m) of
        None \<Rightarrow> (Panicked NoHandlers, w)
      | Some h \<Rightarrow>
          (case routeCtxValue (req_Context r) of
             Some c \<Rightarrow> call h r w
           | None \<Rightarrow>
               (case pool_Get m w of
                  (None, w1) \<Rightarrow> (Panicked NilContext, w1)
                | (Some c, w1) \<Rightarrow>
                    (case call h (WithContext r c)
                            (w1\<lparr>ctxs := (ctxs w1)(c := (reset (ctxs w1 c))\<lparr>parent := req_Context r\<rparr>)\<rparr>) of
                       (Returned u, w3) \<Rightarrow> (Returned (), pool_Put m c w3)
                     | (Panicked e, w3) \<Rightarrow> (Panicked e, w3)
                     | (Diverged, w3) \<Rightarrow> (Diverged, w3)))))"

definition routeHTTP :: "serving \<Rightarrow> finding \<Rightarrow> nat \<Rightarrow> request \<Rightarrow> world \<Rightarrow> unit res \<times> world" where
  "routeHTTP call findRoute m r w =
     (case routeCtxValue (req_Context r) of
        None \<Rightarrow> (Panicked NilContext, w)
      | Some c \<Rightarrow>
          let routePath = (if RoutePath (ctxs w c) = [] then URL_Path r else RoutePath (ctxs w c)) in
          (case MethodMap (req_Method r) of
             None \<Rightarrow> methodNotAllowedHandler r w
           | Some method \<Rightarrow>
               (case findRoute (trees w (tree (muxes w m))) (ctxs w c) routePath of
                  (rctx, None) \<Rightarrow>
                    call (NotFoundHandler (muxes w m)) r (w\<lparr>ctxs := (ctxs w)(c := rctx)\<rparr>)
                | (rctx, Some hs) \<Rightarrow>
                    (case hs method of
                       None \<Rightarrow> methodNotAllowedHandler r (w\<lparr>ctxs := (ctxs w)(c := rctx)\<rparr>)
                     | Some h \<Rightarrow> call h r (w\<lparr>ctxs := (ctxs w)(c := rctx)\<rparr>)))))"

text \<open>The body of the closure \<^verbatim>\<open>subHandler\<close> of \<^verbatim>\<open>Mount\<close>, for the captured \<^verbatim>\<open>handler\<close>.\<close>

definition subHandler :: "serving \<Rightarrow> handler \<Rightarrow> request \<Rightarrow> world \<Rightarrow> unit res \<times> world" where
  "subHandler call h r w =
     (case routeCtxValue (req_Context r) of
        None \<Rightarrow> (Panicked NilContext, w)
      | Some c \<Rightarrow>
          (case Params_Del (Params (ctxs w c)) ''*'' of
             (v, ps) \<Rightarrow>
               call h r (w\<lparr>ctxs := (ctxs w)(c := (ctxs w c)\<lparr>Params := ps, RoutePath := ''/'' @ v\<rparr>)\<rparr>)))"

subsection \<open>A pattern store lookup\<close>

text \<open>
  Modelled from the spec: \<^verbatim>\<open>FindRoute\<close> is not in \<^verbatim>\<open>mux.go\<close>. A pattern matches a path
  when its literal characters agree with the path, each placeholder \<^verbatim>\<open>{name}\<close> captures one
  non-empty segment (up to the next slash) and a trailing \<^verbatim>\<open>*\<close> captures the rest of the
  path under the reserved key \<^verbatim>\<open>*\<close>. Among the stored patterns that match, the lookup
  takes the most specific one: the one that captures the fewest characters (each capture
  counts one more than its length), the earliest registered among equals. It writes the
  captures into the parameters of the routing context and returns, for the routes of the
  matched pattern, the handler of each real method (the latest registration of a method
  wins); \<^verbatim>\<open>_STUB\<close> is never a key. The statements about \<^verbatim>\<open>routeHTTP\<close> below hold for
  every lookup function; this one is used at concrete requests.
\<close>

fun matchPattern :: "string \<Rightarrow> string option \<Rightarrow> string \<Rightarrow> (string \<times> string) list option" where
  "matchPattern [] None [] = Some []"
| "matchPattern [] None (c # cs) = None"
| "matchPattern [] (Some name) path = None"
| "matchPattern (p # ps) (Some name) path =
     (if p = CHR ''}''
      then (if takeWhile (\<lambda>c. c \<noteq> CHR ''/'') path = [] then None
            else map_option ((#) (name, takeWhile (\<lambda>c. c \<noteq> CHR ''/'') path))
                   (matchPattern ps None (dropWhile (\<lambda>c. c \<noteq> CHR ''/'') path)))
      else matchPattern ps (Some (name @ [p])) path)"
| "matchPattern (p # ps) None path =
     (if p = CHR ''*'' \<and> ps = [] then Some [(''*'', path)]
      else if p = CHR ''{'' then matchPattern ps (Some []) path
      else (case path of
              [] \<Rightarrow> None
            | c # cs \<Rightarrow> if p = c then matchPattern ps None cs else None))"

text \<open>
  Modelled from the spec: the order among the matching patterns, which the spec leaves to
  the store as the longest, most specific match. \<open>captured\<close> is what a match has
  captured, \<open>mostSpecific\<close> the match that captured least, \<open>matches\<close> the routes whose
  pattern matches the path, and \<open>handlersOf\<close> the handlers by method of the routes with
  one pattern.
\<close>

definition captured :: "(string \<times> string) list \<Rightarrow> nat" where
  "captured caps = sum_list (map (\<lambda>kv. Suc (length (snd kv))) caps)"

fun mostSpecific :: "(Route \<times> (string \<times> string) list) list \<Rightarrow> (Route \<times> (string \<times> string) list) option" where
  "mostSpecific [] = None"
| "mostSpecific (x # xs) =
     (case mostSpecific xs of
        None \<Rightarrow> Some x
      | Some y \<Rightarrow> if captured (snd x) \<le> captured (snd y) then Some x else Some y)"

definition matches :: "node \<Rightarrow> string \<Rightarrow> (Route \<times> (string \<times> string) list) list" where
  "matches t path =
     concat (map (\<lambda>r. case matchPattern (route_pattern r) None path of
                          None \<Rightarrow> []
                        | Some caps \<Rightarrow> [(r, caps)]) t)"

definition handlersOf :: "node \<Rightarrow> string \<Rightarrow> flag \<rightharpoonup> handler" where
  "handlersOf t pat = (\<lambda>f.
     if f = STUB then None
     else map_option route_handler
            (find (\<lambda>r. route_pattern r = pat \<and> f \<in> route_method r) (rev t)))"

text \<open>
  Modelled from the spec: \<^verbatim>\<open>FindRoute\<close>, which is not in \<^verbatim>\<open>mux.go\<close>.
\<close>

definition FindRoute :: finding where
  "FindRoute t rctx path =
     (case mostSpecific (matches t path) of
        None \<Rightarrow> (rctx, None)
      | Some (r, caps) \<Rightarrow>
          (rctx\<lparr>Params := Params rctx ++ map_of (rev caps)\<rparr>, Some (handlersOf t (route_pattern r))))"

subsection \<open>Running a handler\<close>

text \<open>
  \<^verbatim>\<open>h.ServeHTTP(w, r)\<close> for each kind of handler (\<^verbatim>\<open>http.NotFound\<close> writes the status 404
  and the line \<^verbatim>\<open>404 page not found\<close>; the response is the statuses and bodies written, and
  header fields are not recorded), given what the handlers of the user and
  the middlewares do (\<open>user\<close>, \<open>mw\<close>: a middleware gets the behaviour of the handler it
  wraps) and the lookup of the pattern store. A router can be mounted under itself, so a
  dispatch need not end: \<open>exec\<close> counts the nesting of calls down and gives \<open>Diverged\<close>
  when the count is used up.
\<close>

definition serve ::
  "(nat \<Rightarrow> request \<Rightarrow> world \<Rightarrow> unit res \<times> world) \<Rightarrow>
   (nat \<Rightarrow> (request \<Rightarrow> world \<Rightarrow> unit res \<times> world) \<Rightarrow> request \<Rightarrow> world \<Rightarrow> unit res \<times> world) \<Rightarrow>
   finding \<Rightarrow> serving \<Rightarrow> serving" where
  "serve user mw findRoute call h r w =
     (case h of
        UserHandler k \<Rightarrow> user k r w
      | HttpNotFound \<Rightarrow>
          (Returned (), w\<lparr>resp := resp w @ [WriteHeader 404, Write ''404 page not found\<newline>'']\<rparr>)
      | MuxHandler m \<Rightarrow> ServeHTTP call m r w
      | RouteHTTP m \<Rightarrow> routeHTTP call findRoute m r w
      | SubHandler h' \<Rightarrow> subHandler call h' r w
      | Wrapped k h' \<Rightarrow> mw k (call h') r w)"

primrec exec ::
  "(nat \<Rightarrow> request \<Rightarrow> world \<Rightarrow> unit res \<times> world) \<Rightarrow>
   (nat \<Rightarrow> (request \<Rightarrow> world \<Rightarrow> unit res \<times> world) \<Rightarrow> request \<Rightarrow> world \<Rightarrow> unit res \<times> world) \<Rightarrow>
   finding \<Rightarrow> nat \<Rightarrow> serving" where
  "exec user mw findRoute 0 = (\<lambda>h r w. (Diverged, w))"
| "exec user mw findRoute (Suc n) = serve user mw findRoute (exec user mw findRoute n)"

subsection \<open>What a registration leaves behind\<close>

text \<open>
  Names for the statements below. After a successful \<^verbatim>\<open>handle\<close> the composed handler of the
  router is \<open>composed\<close>: \<^verbatim>\<open>routeHTTP\<close> itself on an inline router, else the handler that
  was there, or the chain of the router's middlewares around \<^verbatim>\<open>routeHTTP\<close> when there was
  none. The handler that \<^verbatim>\<open>handle\<close> puts into the tree is \<open>stored\<close>: the given one, wrapped
  in the router's middlewares when the router is inline. \<open>mounted\<close> is the result of the
  type assertion \<^verbatim>\<open>handler.(*Mux)\<close> in \<^verbatim>\<open>Mount\<close>, and \<open>inherited\<close> the store after \<^verbatim>\<open>Mount\<close>
  has given the receiver's not-found handler to a sub-router that has none.
\<close>

definition composed :: "nat \<Rightarrow> Mux \<Rightarrow> handler" where
  "composed m mx =
     (if inline mx then RouteHTTP m
      else case handler mx of None \<Rightarrow> chain (middlewares mx) (RouteHTTP m) | Some h \<Rightarrow> h)"

definition stored :: "Mux \<Rightarrow> handler \<Rightarrow> handler" where
  "stored mx h = (if inline mx then chain (middlewares mx) h else h)"

definition mounted :: "handler \<Rightarrow> nat option" where
  "mounted h = (case h of MuxHandler s \<Rightarrow> Some s | _ \<Rightarrow> None)"

definition inherited :: "nat \<Rightarrow> handler \<Rightarrow> world \<Rightarrow> world" where
  "inherited m h w =
     (case h of
        MuxHandler s \<Rightarrow>
          (case notFoundHandler (muxes w m) of
             Some nf \<Rightarrow> if notFoundHandler (muxes w s) = None then NotFound s nf w else w
           | None \<Rightarrow> w)
      | _ \<Rightarrow> w)"

subsection \<open>Concrete stores and requests\<close>

text \<open>
  The store before anything is allocated (every reference holds the zero value of its
  type), a handler of the user that answers with a status and the override path it sees,
  a middleware that only calls the next handler, and a request with the background scope.
\<close>

definition zeroMux :: Mux where
  "zeroMux = \<lparr>tree = 0, middlewares = [], inline = False, handler = None,
     pool = \<lparr>items = [], New_set = False\<rparr>, notFoundHandler = None\<rparr>"

definition emptyWorld :: world where
  "emptyWorld =
     \<lparr>muxes = (\<lambda>_. zeroMux), next_mux = 0, trees = (\<lambda>_. []), next_tree = 0,
      ctxs = (\<lambda>_. \<lparr>Params = Map.empty, RoutePath = [], parent = Background\<rparr>),
      next_ctx = 0, resp = []\<rparr>"

definition echo :: "nat \<Rightarrow> request \<Rightarrow> world \<Rightarrow> unit res \<times> world" where
  "echo k r w =
     (Returned (),
      w\<lparr>resp := resp w @
         [WriteHeader (200 + k),
          Write (case routeCtxValue (req_Context r) of
                   None \<Rightarrow> []
                 | Some c \<Rightarrow> RoutePath (ctxs w c))]\<rparr>)"

text \<open>A handler of the user that answers with a status and the path of the request it gets.\<close>

definition echoPath :: "nat \<Rightarrow> request \<Rightarrow> world \<Rightarrow> unit res \<times> world" where
  "echoPath k r w =
     (Returned (), w\<lparr>resp := resp w @ [WriteHeader (200 + k), Write (URL_Path r)]\<rparr>)"

text \<open>A handler of the user that panics.\<close>

definition failing :: "nat \<Rightarrow> request \<Rightarrow> world \<Rightarrow> unit res \<times> world" where
  "failing k r w = (Panicked (HandlerPanic ''boom''), w)"

definition pass ::
  "nat \<Rightarrow> (request \<Rightarrow> world \<Rightarrow> unit res \<times> world) \<Rightarrow> request \<Rightarrow> world \<Rightarrow> unit res \<times> world" where
  "pass k next r w = next r w"

definition newRequest :: "string \<Rightarrow> string \<Rightarrow> request" where
  "newRequest meth path = \<lparr>req_Method = meth, URL_Path = path, req_Context = Background\<rparr>"

text \<open>One router, as \<^verbatim>\<open>NewMux()\<close> returns it: reference 0, with the tree 0.\<close>

definition oneRouter :: world where
  "oneRouter = snd (NewMux emptyWorld)"

text \<open>Two routers, 0 and 1, with the trees 0 and 1.\<close>

definition twoRouters :: world where
  "twoRouters = snd (NewMux oneRouter)"

text \<open>The router 1 answers \<^verbatim>\<open>GET /dashboard\<close> and is mounted at \<^verbatim>\<open>/admin\<close> of the router 0.\<close>

definition subSite :: world where
  "subSite = snd (Get 1 ''/dashboard'' (UserHandler 7) twoRouters)"

definition adminSite :: world where
  "adminSite = snd (Mount 0 ''/admin'' (MuxHandler 1) subSite)"

text \<open>The router 1 has no route and is mounted at \<^verbatim>\<open>/e\<close> of the router 0.\<close>

definition emptyMount :: world where
  "emptyMount = snd (Mount 0 ''/e'' (MuxHandler 1) twoRouters)"

text \<open>\<^verbatim>\<open>Chain\<close> with the middleware 3 on a new router 0: the inline router 1. No route is
  registered.\<close>

definition groupSite :: world where
  "groupSite = snd (Chain 0 [3] oneRouter)"


text \<open>A handler of the user, not a router, mounted at \<^verbatim>\<open>/static\<close> of a new router 0.\<close>

definition staticSite :: world where
  "staticSite = snd (Mount 0 ''/static'' (UserHandler 9) oneRouter)"

text \<open>The admin site when the router 0 has looked \<^verbatim>\<open>/admin/dashboard\<close> up for the context 0.\<close>

definition matchedAdmin :: world where
  "matchedAdmin =
     adminSite\<lparr>ctxs := (ctxs adminSite)(0 :=
       fst (FindRoute (trees adminSite 0) (ctxs adminSite 0) ''/admin/dashboard''))\<rparr>"

text \<open>The same for \<^verbatim>\<open>/admin/dashboard/settings\<close>.\<close>

definition matchedSettings :: world where
  "matchedSettings =
     adminSite\<lparr>ctxs := (ctxs adminSite)(0 :=
       fst (FindRoute (trees adminSite 0) (ctxs adminSite 0) ''/admin/dashboard/settings''))\<rparr>"

text \<open>Six nested calls, enough for a request to pass a router, a mount and a sub-router.\<close>

definition run :: serving where
  "run = exec echo pass FindRoute (Suc (Suc (Suc (Suc (Suc (Suc 0))))))"

text \<open>The same, with handlers of the user that answer with the path of the request.\<close>

definition runPath :: serving where
  "runPath = exec echoPath pass FindRoute (Suc (Suc (Suc (Suc (Suc (Suc 0))))))"

text \<open>The same, with handlers of the user that panic.\<close>

definition runFailing :: serving where
  "runFailing = exec failing pass FindRoute (Suc (Suc (Suc (Suc (Suc (Suc 0))))))"

section \<open>Properties\<close>

subsection \<open>Registration\<close>

lemma handle_builds:
  "handle m meth pat h w = (Returned n, w') \<Longrightarrow> handler (muxes w' m) \<noteq> None"
  by (auto simp: handle_def Let_def InsertRoute_def buildRouteHandler_def split: if_splits)

lemma handle_unrooted:
  "pat = [] \<or> hd pat \<noteq> CHR ''/'' \<Longrightarrow> handle m meth pat h w = (Panicked (PatternNotRooted pat), w)"
  by (simp add: handle_def)

lemma handle_rooted:
  assumes "pat \<noteq> []" and "hd pat = CHR ''/''"
  shows "handle m meth pat h w =
    (Returned (length (trees w (tree (muxes w m)))),
     w\<lparr>muxes := (muxes w)(m := (muxes w m)\<lparr>handler := Some (composed m (muxes w m))\<rparr>),
       trees := (trees w)(tree (muxes w m) := trees w (tree (muxes w m)) @
         [\<lparr>route_method = meth, route_pattern = pat,
           route_handler = stored (muxes w m) h, subrouter = None\<rparr>])\<rparr>)"
proof (cases "inline (muxes w m)")
  case True
  with assms show ?thesis
    by (simp add: handle_def Let_def InsertRoute_def composed_def stored_def Chain_Handler_def)
next
  case False
  show ?thesis
  proof (cases "handler (muxes w m)")
    case None
    with False assms show ?thesis
      by (simp add: handle_def Let_def InsertRoute_def composed_def stored_def
          buildRouteHandler_def)
  next
    case (Some h0)
    then have "(muxes w)(m := (muxes w m)\<lparr>handler := Some h0\<rparr>) = muxes w"
      by (metis Mux.surjective Mux.update_convs(4) fun_upd_triv)
    with Some False assms show ?thesis
      by (simp add: handle_def Let_def InsertRoute_def composed_def stored_def)
  qed
qed

lemma inherited_frame:
  "trees (inherited m h w) = trees w"
  "ctxs (inherited m h w) = ctxs w"
  "resp (inherited m h w) = resp w"
  "next_ctx (inherited m h w) = next_ctx w"
  "tree (muxes (inherited m h w) x) = tree (muxes w x)"
  "inline (muxes (inherited m h w) x) = inline (muxes w x)"
  "middlewares (muxes (inherited m h w) x) = middlewares (muxes w x)"
  "handler (muxes (inherited m h w) x) = handler (muxes w x)"
  "pool (muxes (inherited m h w) x) = pool (muxes w x)"
  "notFoundHandler (muxes (inherited m h w) m) = notFoundHandler (muxes w m)"
  by (auto simp: inherited_def NotFound_def split: handler.splits option.splits)

lemma composed_frame:
  "composed m (muxes (inherited m h w) m) = composed m (muxes w m)"
  "stored (muxes (inherited m h w) m) x = stored (muxes w m) x"
  "NotFoundHandler (muxes (inherited m h w) m) = NotFoundHandler (muxes w m)"
  by (simp_all add: composed_def stored_def NotFoundHandler_def inherited_frame
      split: option.splits)

lemma composed_built:
  "composed m (mx\<lparr>handler := Some x\<rparr>) = (if inline mx then RouteHTTP m else x)"
  "(if inline mx then RouteHTTP m else composed m mx) = composed m mx"
  "stored (mx\<lparr>handler := ho\<rparr>) y = stored mx y"
  "NotFoundHandler (mx\<lparr>handler := ho\<rparr>) = NotFoundHandler mx"
  by (simp_all add: composed_def stored_def NotFoundHandler_def)

lemma findPattern_stored:
  "findPattern t pat = None \<longleftrightarrow> pat \<notin> route_pattern ` set t"
  by (auto simp: findPattern_def find_None_iff)

text \<open>\<^verbatim>\<open>Mount\<close>, with the names above for the parts of its body.\<close>

lemma Mount_unfold:
  "Mount m pat h w =
     (if findPattern (trees w (tree (muxes w m))) (pat @ ''*'') \<noteq> None
         \<or> findPattern (trees w (tree (muxes w m))) (pat @ ''/*'') \<noteq> None
      then (Panicked (MountOnExistingPath pat), w)
      else
          andThen
            (if pat = [] \<or> last pat \<noteq> CHR ''/''
             then
               andThen (handle m (ANY \<union> {STUB}) pat (SubHandler h) (inherited m h w)) (\<lambda>_ w2.
               andThen (handle m (ANY \<union> {STUB}) (pat @ ''/'') (NotFoundHandler (muxes w2 m)) w2) (\<lambda>_ w3.
               (Returned (pat @ ''/''), w3)))
             else (Returned pat, inherited m h w))
            (\<lambda>pat' w4.
               andThen
                 (handle m (if mounted h \<noteq> None then ANY \<union> {STUB} else ANY) (pat' @ ''*'')
                    (SubHandler h) w4)
                 (\<lambda>n w5.
                    (Returned (),
                     (case mounted h of
                        Some s \<Rightarrow>
                          w5\<lparr>trees := (trees w5)(tree (muxes w5 m) :=
                               (trees w5 (tree (muxes w5 m)))
                                 [n := (trees w5 (tree (muxes w5 m)) ! n)\<lparr>subrouter := Some s\<rparr>])\<rparr>
                      | None \<Rightarrow> w5)))))"
  by (cases h) (simp_all add: Mount_def inherited_def mounted_def Let_def)

lemma Mount_conflict:
  "findPattern (trees w (tree (muxes w m))) (pat @ ''*'') \<noteq> None
     \<or> findPattern (trees w (tree (muxes w m))) (pat @ ''/*'') \<noteq> None \<Longrightarrow>
   Mount m pat h w = (Panicked (MountOnExistingPath pat), w)"
  by (simp add: Mount_def)

lemma Mount_unrooted:
  assumes "pat = [] \<or> hd pat \<noteq> CHR ''/''"
    and "findPattern (trees w (tree (muxes w m))) (pat @ ''*'') = None"
    and "findPattern (trees w (tree (muxes w m))) (pat @ ''/*'') = None"
  shows "Mount m pat h w =
    (Panicked (PatternNotRooted (if pat = [] \<or> last pat \<noteq> CHR ''/'' then pat else pat @ ''*'')),
     inherited m h w)"
proof (cases "pat = [] \<or> last pat \<noteq> CHR ''/''")
  case True
  with assms show ?thesis
    by (simp add: Mount_unfold andThen_def handle_unrooted)
next
  case False
  with assms have "pat @ ''*'' = [] \<or> hd (pat @ ''*'') \<noteq> CHR ''/''"
    by auto
  with False assms show ?thesis
    by (simp add: Mount_unfold andThen_def handle_unrooted)
qed

lemma Mount_no_slash:
  assumes "pat \<noteq> []" and "hd pat = CHR ''/''" and "last pat \<noteq> CHR ''/''"
    and "findPattern (trees w (tree (muxes w m))) (pat @ ''*'') = None"
    and "findPattern (trees w (tree (muxes w m))) (pat @ ''/*'') = None"
  shows "Mount m pat h w =
    (Returned (),
     (inherited m h w)
       \<lparr>muxes := (muxes (inherited m h w))(m := (muxes (inherited m h w) m)
           \<lparr>handler := Some (composed m (muxes w m))\<rparr>),
        trees := (trees w)(tree (muxes w m) := trees w (tree (muxes w m)) @
          [\<lparr>route_method = ANY \<union> {STUB}, route_pattern = pat,
            route_handler = stored (muxes w m) (SubHandler h), subrouter = None\<rparr>,
           \<lparr>route_method = ANY \<union> {STUB}, route_pattern = pat @ ''/'',
            route_handler = stored (muxes w m) (NotFoundHandler (muxes w m)), subrouter = None\<rparr>,
           \<lparr>route_method = (if mounted h \<noteq> None then ANY \<union> {STUB} else ANY),
            route_pattern = pat @ ''/*'',
            route_handler = stored (muxes w m) (SubHandler h), subrouter = mounted h\<rparr>])\<rparr>)"
proof -
  have r: "pat @ ''/'' \<noteq> []" "hd (pat @ ''/'') = CHR ''/''"
    "pat @ ''/*'' \<noteq> []" "hd (pat @ ''/*'') = CHR ''/''"
    using assms(1,2) by simp_all
  show ?thesis
    using assms
    by (cases "mounted h")
       (simp_all add: Mount_unfold andThen_def handle_rooted [OF assms(1,2)]
         handle_rooted [OF r(1,2)] handle_rooted [OF r(3,4)]
         inherited_frame composed_frame composed_built nth_append)
qed

lemma Mount_slash:
  assumes "pat \<noteq> []" and "hd pat = CHR ''/''" and "last pat = CHR ''/''"
    and "findPattern (trees w (tree (muxes w m))) (pat @ ''*'') = None"
    and "findPattern (trees w (tree (muxes w m))) (pat @ ''/*'') = None"
  shows "Mount m pat h w =
    (Returned (),
     (inherited m h w)
       \<lparr>muxes := (muxes (inherited m h w))(m := (muxes (inherited m h w) m)
           \<lparr>handler := Some (composed m (muxes w m))\<rparr>),
        trees := (trees w)(tree (muxes w m) := trees w (tree (muxes w m)) @
          [\<lparr>route_method = (if mounted h \<noteq> None then ANY \<union> {STUB} else ANY),
            route_pattern = pat @ ''*'',
            route_handler = stored (muxes w m) (SubHandler h), subrouter = mounted h\<rparr>])\<rparr>)"
proof -
  have r: "pat @ ''*'' \<noteq> []" "hd (pat @ ''*'') = CHR ''/''"
    using assms(1,2) by simp_all
  show ?thesis
    using assms
    by (cases "mounted h")
       (simp_all add: Mount_unfold andThen_def handle_rooted [OF r]
         inherited_frame composed_frame composed_built)
qed

subsection \<open>Dispatch\<close>

lemma Context_updated:
  "x\<lparr>Params := a, RoutePath := b, parent := p\<rparr> = \<lparr>Params = a, RoutePath = b, parent = p\<rparr>"
  by (cases x) simp


lemma ServeHTTP_nested:
  "handler (muxes w m) = Some h \<Longrightarrow> routeCtxValue (req_Context r) = Some c \<Longrightarrow>
   ServeHTTP call m r w = call h r w"
  by (simp add: ServeHTTP_def)

lemma ServeHTTP_outermost:
  "handler (muxes w m) = Some h \<Longrightarrow> routeCtxValue (req_Context r) = None \<Longrightarrow>
   pool_Get m w = (Some c, w1) \<Longrightarrow>
   ServeHTTP call m r w =
     (case call h (WithContext r c)
             (w1\<lparr>ctxs := (ctxs w1)(c :=
                 \<lparr>Params = Map.empty, RoutePath = [], parent = req_Context r\<rparr>)\<rparr>) of
        (Returned u, w3) \<Rightarrow> (Returned (), pool_Put m c w3)
      | (Panicked e, w3) \<Rightarrow> (Panicked e, w3)
      | (Diverged, w3) \<Rightarrow> (Diverged, w3))"
  by (simp add: ServeHTTP_def reset_def Context_updated)

lemma ServeHTTP_no_context:
  "handler (muxes w m) = Some h \<Longrightarrow> routeCtxValue (req_Context r) = None \<Longrightarrow>
   pool_Get m w = (None, w1) \<Longrightarrow> ServeHTTP call m r w = (Panicked NilContext, w1)"
  by (simp add: ServeHTTP_def)

subsection \<open>The concrete stores\<close>

lemma twoRouters_facts:
  "muxes twoRouters 0 = \<lparr>tree = 0, middlewares = [], inline = False, handler = None,
      pool = \<lparr>items = [], New_set = True\<rparr>, notFoundHandler = None\<rparr>"
  "muxes twoRouters (Suc 0) = \<lparr>tree = Suc 0, middlewares = [], inline = False, handler = None,
      pool = \<lparr>items = [], New_set = True\<rparr>, notFoundHandler = None\<rparr>"
  "trees twoRouters 0 = []"
  "trees twoRouters (Suc 0) = []"
  "ctxs twoRouters c = \<lparr>Params = Map.empty, RoutePath = [], parent = Background\<rparr>"
  "resp twoRouters = []"
  "next_ctx twoRouters = 0"
  by (simp_all add: twoRouters_def oneRouter_def NewMux_def emptyWorld_def)

lemma subSite_facts:
  "muxes subSite 0 = \<lparr>tree = 0, middlewares = [], inline = False, handler = None,
      pool = \<lparr>items = [], New_set = True\<rparr>, notFoundHandler = None\<rparr>"
  "muxes subSite (Suc 0) = \<lparr>tree = Suc 0, middlewares = [], inline = False,
      handler = Some (RouteHTTP 1),
      pool = \<lparr>items = [], New_set = True\<rparr>, notFoundHandler = None\<rparr>"
  "trees subSite 0 = []"
  "trees subSite (Suc 0) =
     [\<lparr>route_method = {GET}, route_pattern = ''/dashboard'',
       route_handler = UserHandler 7, subrouter = None\<rparr>]"
  "ctxs subSite c = \<lparr>Params = Map.empty, RoutePath = [], parent = Background\<rparr>"
  "resp subSite = []"
  "next_ctx subSite = 0"
  by (simp_all add: subSite_def Get_def andThen_def handle_rooted twoRouters_facts
      composed_def stored_def chain_def)

lemma Mount_adminSite:
  "Mount 0 ''/admin'' (MuxHandler 1) subSite = (Returned (), adminSite)"
  by (simp add: adminSite_def Mount_no_slash subSite_facts findPattern_def)

lemma adminSite_facts:
  "muxes adminSite 0 = \<lparr>tree = 0, middlewares = [], inline = False,
      handler = Some (RouteHTTP 0),
      pool = \<lparr>items = [], New_set = True\<rparr>, notFoundHandler = None\<rparr>"
  "muxes adminSite (Suc 0) = \<lparr>tree = Suc 0, middlewares = [], inline = False,
      handler = Some (RouteHTTP 1),
      pool = \<lparr>items = [], New_set = True\<rparr>, notFoundHandler = None\<rparr>"
  "trees adminSite 0 =
     [\<lparr>route_method = ANY \<union> {STUB}, route_pattern = ''/admin'',
       route_handler = SubHandler (MuxHandler 1), subrouter = None\<rparr>,
      \<lparr>route_method = ANY \<union> {STUB}, route_pattern = ''/admin/'',
       route_handler = HttpNotFound, subrouter = None\<rparr>,
      \<lparr>route_method = ANY \<union> {STUB}, route_pattern = ''/admin/*'',
       route_handler = SubHandler (MuxHandler 1), subrouter = Some 1\<rparr>]"
  "trees adminSite (Suc 0) =
     [\<lparr>route_method = {GET}, route_pattern = ''/dashboard'',
       route_handler = UserHandler 7, subrouter = None\<rparr>]"
  "ctxs adminSite c = \<lparr>Params = Map.empty, RoutePath = [], parent = Background\<rparr>"
  "resp adminSite = []"
  "next_ctx adminSite = 0"
  by (simp_all add: adminSite_def Mount_no_slash subSite_facts findPattern_def
      inherited_def mounted_def composed_def stored_def NotFoundHandler_def chain_def)

lemma emptyMount_facts:
  "muxes emptyMount 0 = \<lparr>tree = 0, middlewares = [], inline = False,
      handler = Some (RouteHTTP 0),
      pool = \<lparr>items = [], New_set = True\<rparr>, notFoundHandler = None\<rparr>"
  "muxes emptyMount (Suc 0) = \<lparr>tree = Suc 0, middlewares = [], inline = False, handler = None,
      pool = \<lparr>items = [], New_set = True\<rparr>, notFoundHandler = None\<rparr>"
  "trees emptyMount 0 =
     [\<lparr>route_method = ANY \<union> {STUB}, route_pattern = ''/e'',
       route_handler = SubHandler (MuxHandler 1), subrouter = None\<rparr>,
      \<lparr>route_method = ANY \<union> {STUB}, route_pattern = ''/e/'',
       route_handler = HttpNotFound, subrouter = None\<rparr>,
      \<lparr>route_method = ANY \<union> {STUB}, route_pattern = ''/e/*'',
       route_handler = SubHandler (MuxHandler 1), subrouter = Some 1\<rparr>]"
  "ctxs emptyMount c = \<lparr>Params = Map.empty, RoutePath = [], parent = Background\<rparr>"
  "resp emptyMount = []"
  "next_ctx emptyMount = 0"
  by (simp_all add: emptyMount_def Mount_no_slash twoRouters_facts findPattern_def
      inherited_def mounted_def composed_def stored_def NotFoundHandler_def chain_def)

lemma groupSite_facts:
  "muxes groupSite 0 = \<lparr>tree = 0, middlewares = [], inline = False,
      handler = Some (RouteHTTP 0),
      pool = \<lparr>items = [], New_set = True\<rparr>, notFoundHandler = None\<rparr>"
  "muxes groupSite (Suc 0) = \<lparr>tree = 0, middlewares = [3], inline = True, handler = None,
      pool = \<lparr>items = [], New_set = False\<rparr>, notFoundHandler = None\<rparr>"
  "trees groupSite 0 = []"
  "ctxs groupSite c = \<lparr>Params = Map.empty, RoutePath = [], parent = Background\<rparr>"
  "resp groupSite = []"
  "next_ctx groupSite = 0"
  by (simp_all add: groupSite_def oneRouter_def NewMux_def emptyWorld_def Chain_def Let_def
      buildRouteHandler_def chain_def)

lemma oneRouter_facts:
  "muxes oneRouter 0 = \<lparr>tree = 0, middlewares = [], inline = False, handler = None,
      pool = \<lparr>items = [], New_set = True\<rparr>, notFoundHandler = None\<rparr>"
  "trees oneRouter 0 = []"
  "ctxs oneRouter c = \<lparr>Params = Map.empty, RoutePath = [], parent = Background\<rparr>"
  "resp oneRouter = []"
  "next_ctx oneRouter = 0"
  "next_mux oneRouter = 1"
  by (simp_all add: oneRouter_def NewMux_def emptyWorld_def)

lemma staticSite_facts:
  "muxes staticSite 0 = \<lparr>tree = 0, middlewares = [], inline = False,
      handler = Some (RouteHTTP 0),
      pool = \<lparr>items = [], New_set = True\<rparr>, notFoundHandler = None\<rparr>"
  "trees staticSite 0 =
     [\<lparr>route_method = ANY \<union> {STUB}, route_pattern = ''/static'',
       route_handler = SubHandler (UserHandler 9), subrouter = None\<rparr>,
      \<lparr>route_method = ANY \<union> {STUB}, route_pattern = ''/static/'',
       route_handler = HttpNotFound, subrouter = None\<rparr>,
      \<lparr>route_method = ANY, route_pattern = ''/static/*'',
       route_handler = SubHandler (UserHandler 9), subrouter = None\<rparr>]"
  "ctxs staticSite c = \<lparr>Params = Map.empty, RoutePath = [], parent = Background\<rparr>"
  "resp staticSite = []"
  "next_ctx staticSite = 0"
  by (simp_all add: staticSite_def Mount_no_slash oneRouter_facts findPattern_def
      inherited_def mounted_def composed_def stored_def NotFoundHandler_def chain_def)


lemma matchedSettings_facts:
  "muxes matchedSettings = muxes adminSite"
  "trees matchedSettings = trees adminSite"
  "resp matchedSettings = []"
  "next_ctx matchedSettings = 0"
  "ctxs matchedSettings 0 =
     \<lparr>Params = [''*'' \<mapsto> ''dashboard/settings''], RoutePath = [], parent = Background\<rparr>"
  by (simp_all add: matchedSettings_def adminSite_facts FindRoute_def matches_def captured_def)

lemma matchedAdmin_facts:
  "muxes matchedAdmin = muxes adminSite"
  "trees matchedAdmin = trees adminSite"
  "resp matchedAdmin = []"
  "next_ctx matchedAdmin = 0"
  "ctxs matchedAdmin 0 =
     \<lparr>Params = [''*'' \<mapsto> ''dashboard''], RoutePath = [], parent = Background\<rparr>"
  by (simp_all add: matchedAdmin_def adminSite_facts FindRoute_def matches_def captured_def)

text \<open>The rules that evaluate a dispatch on a concrete store.\<close>

lemmas dispatch_defs =
  run_def runFailing_def runPath_def failing_def echoPath_def serve_def ServeHTTP_def routeHTTP_def subHandler_def pool_Get_def pool_Put_def
  NewRouteContext_def WithContext_def reset_def Params_Del_def methodNotAllowedHandler_def
  MethodMap_def FindRoute_def matches_def handlersOf_def captured_def echo_def pass_def
  newRequest_def NotFoundHandler_def ANY_def

subsection \<open>Chain\<close>

text \<open>
  C9. \<^verbatim>\<open>Chain(middlewares...)\<close> on an allocated router returns a new router (a fresh reference)
  that is inline, has the same tree reference as the receiver (the pattern store is the
  same object, and no store is changed), no composed handler, and the middleware sequence
  of the receiver (when the receiver is inline, else the empty sequence) followed by the
  supplied middlewares. When the receiver is not inline and its composed handler is
  unbuilt, the call builds it from the receiver's middlewares and \<^verbatim>\<open>routeHTTP\<close>, so that
  every later \<^verbatim>\<open>Use\<close> on the receiver panics; otherwise the receiver is unchanged.
\<close>

theorem Chain_inline_router:
  assumes "m < next_mux w"
  shows "fst (Chain m mws w) = next_mux w
    \<and> fst (Chain m mws w) \<noteq> m
    \<and> muxes (snd (Chain m mws w)) (fst (Chain m mws w)) =
        \<lparr>tree = tree (muxes w m),
         middlewares = (if inline (muxes w m) then middlewares (muxes w m) else []) @ mws,
         inline = True, handler = None,
         pool = \<lparr>items = [], New_set = False\<rparr>, notFoundHandler = None\<rparr>
    \<and> tree (muxes (snd (Chain m mws w)) (fst (Chain m mws w))) =
        tree (muxes (snd (Chain m mws w)) m)
    \<and> trees (snd (Chain m mws w)) = trees w
    \<and> (if \<not> inline (muxes w m) \<and> handler (muxes w m) = None
        then muxes (snd (Chain m mws w)) m =
               (muxes w m)\<lparr>handler := Some (chain (middlewares (muxes w m)) (RouteHTTP m))\<rparr>
             \<and> (\<forall>mws'. Use m mws' (snd (Chain m mws w)) =
                         (Panicked MiddlewareAfterRoutes, snd (Chain m mws w)))
        else muxes (snd (Chain m mws w)) m = muxes w m)"
  using assms by (simp add: Chain_def Let_def buildRouteHandler_def Use_def)

text \<open>
  On a new router, \<^verbatim>\<open>Chain\<close> with the middleware 5 gives the inline router 1 with the
  sequence [5] and seals the router 0; \<^verbatim>\<open>Chain\<close> with the middleware 6 on that inline
  router gives the router 2 with the sequence [5, 6].
\<close>

theorem Chain_inline_router_witness:
  "(0::nat) < next_mux oneRouter
   \<and> fst (Chain 0 [5] oneRouter) = 1
   \<and> middlewares (muxes (snd (Chain 0 [5] oneRouter)) 1) = [5]
   \<and> tree (muxes (snd (Chain 0 [5] oneRouter)) 1) = tree (muxes (snd (Chain 0 [5] oneRouter)) 0)
   \<and> handler (muxes (snd (Chain 0 [5] oneRouter)) 0) = Some (RouteHTTP 0)
   \<and> Use 0 [6] (snd (Chain 0 [5] oneRouter)) =
       (Panicked MiddlewareAfterRoutes, snd (Chain 0 [5] oneRouter))
   \<and> middlewares (muxes (snd (Chain 1 [6] (snd (Chain 0 [5] oneRouter)))) 2) = [5, 6]"
  using Chain_inline_router [of 0 oneRouter "[5]"]
    Chain_inline_router [of 1 "snd (Chain 0 [5] oneRouter)" "[6]"]
  by (simp add: oneRouter_def NewMux_def emptyWorld_def Chain_def Let_def
      buildRouteHandler_def Use_def chain_def zeroMux_def)

subsection \<open>Use\<close>

text \<open>
  C7. \<^verbatim>\<open>Use\<close> appends the middlewares to the sequence of the router when the composed
  handler is unbuilt, and panics, leaving the store as it is, exactly when the composed
  handler is built. The handler is built after a route registration on the router,
  inline or not: after a \<^verbatim>\<open>handle\<close> that returns, \<^verbatim>\<open>Use\<close> panics. It is built when a dispatch
  gets past the check of \<^verbatim>\<open>ServeHTTP\<close>: if \<^verbatim>\<open>ServeHTTP\<close> does not fail with the panic of a mux
  without handlers, \<^verbatim>\<open>Use\<close> panics before the dispatch, and after it too when the handlers
  that ran left the composed handler of the router alone.
\<close>

theorem Use_appends_or_fails:
  "(handler (muxes w m) = None \<longrightarrow>
      Use m mws w = (Returned (),
        w\<lparr>muxes := (muxes w)(m := (muxes w m)\<lparr>middlewares := middlewares (muxes w m) @ mws\<rparr>)\<rparr>))
   \<and> (Use m mws w = (Panicked MiddlewareAfterRoutes, w) \<longleftrightarrow> handler (muxes w m) \<noteq> None)
   \<and> (handle m meth pat h w = (Returned n, w') \<longrightarrow>
         Use m mws w' = (Panicked MiddlewareAfterRoutes, w'))
   \<and> (fst (ServeHTTP call m r w) \<noteq> Panicked NoHandlers \<longrightarrow>
         Use m mws w = (Panicked MiddlewareAfterRoutes, w))
   \<and> ((\<forall>h' r' w''. handler (muxes (snd (call h' r' w'')) m) = handler (muxes w'' m))
        \<and> fst (ServeHTTP call m r w) \<noteq> Panicked NoHandlers \<longrightarrow>
         Use m mws (snd (ServeHTTP call m r w)) =
           (Panicked MiddlewareAfterRoutes, snd (ServeHTTP call m r w)))"
proof (intro conjI impI)
  show "handler (muxes w m) = None \<Longrightarrow>
      Use m mws w = (Returned (),
        w\<lparr>muxes := (muxes w)(m := (muxes w m)\<lparr>middlewares := middlewares (muxes w m) @ mws\<rparr>)\<rparr>)"
    by (simp add: Use_def)
  show "Use m mws w = (Panicked MiddlewareAfterRoutes, w) \<longleftrightarrow> handler (muxes w m) \<noteq> None"
    by (simp add: Use_def)
  show "Use m mws w' = (Panicked MiddlewareAfterRoutes, w')"
    if "handle m meth pat h w = (Returned n, w')"
    using handle_builds [OF that] by (simp add: Use_def)
  show "Use m mws w = (Panicked MiddlewareAfterRoutes, w)"
    if "fst (ServeHTTP call m r w) \<noteq> Panicked NoHandlers"
    using that by (cases "handler (muxes w m)") (auto simp: Use_def ServeHTTP_def)
  show "Use m mws (snd (ServeHTTP call m r w)) =
           (Panicked MiddlewareAfterRoutes, snd (ServeHTTP call m r w))"
    if both: "(\<forall>h' r' w''. handler (muxes (snd (call h' r' w'')) m) = handler (muxes w'' m))
        \<and> fst (ServeHTTP call m r w) \<noteq> Panicked NoHandlers"
  proof -
    from both have fr: "\<And>h' r' w''. handler (muxes (snd (call h' r' w'')) m) = handler (muxes w'' m)"
      and ok: "fst (ServeHTTP call m r w) \<noteq> Panicked NoHandlers"
      by simp_all
    from ok obtain h where h: "handler (muxes w m) = Some h"
      by (cases "handler (muxes w m)") (auto simp: ServeHTTP_def)
    have g: "handler (muxes (snd (pool_Get m w)) m) = handler (muxes w m)"
      by (simp add: pool_Get_def NewRouteContext_def split: list.splits)
    have "handler (muxes (snd (ServeHTTP call m r w)) m) = Some h"
    proof (cases "routeCtxValue (req_Context r)")
      case (Some c)
      then show ?thesis using h fr by (simp add: ServeHTTP_def)
    next
      case None
      obtain oc w1 where p: "pool_Get m w = (oc, w1)"
        by (cases "pool_Get m w")
      with g h have h1: "handler (muxes w1 m) = Some h" by simp
      show ?thesis
      proof (cases oc)
        case None
        with p h h1 \<open>routeCtxValue (req_Context r) = None\<close> show ?thesis
          by (simp add: ServeHTTP_def)
      next
        case (Some c)
        let ?r = "WithContext r c"
        let ?w = "w1\<lparr>ctxs := (ctxs w1)(c := (reset (ctxs w1 c))\<lparr>parent := req_Context r\<rparr>)\<rparr>"
        have "handler (muxes (snd (call h ?r ?w)) m) = Some h"
          using fr h1 by simp
        then show ?thesis
          using p Some h \<open>routeCtxValue (req_Context r) = None\<close>
          by (cases "call h ?r ?w"; cases "fst (call h ?r ?w)")
             (auto simp: ServeHTTP_def pool_Put_def)
      qed
    qed
    then show ?thesis by (simp add: Use_def)
  qed
qed

text \<open>
  On a new router \<^verbatim>\<open>Use\<close> appends the middleware 4. After \<^verbatim>\<open>handle\<close> on the router 1, and
  after \<^verbatim>\<open>handle\<close> on the inline router 1 of the group, \<^verbatim>\<open>Use\<close> panics. The router 0 of the
  admin site serves a request, and \<^verbatim>\<open>Use\<close> panics on it before and after.
\<close>

theorem Use_appends_or_fails_witness:
  "fst (Use 0 [4] oneRouter) = Returned ()
   \<and> middlewares (muxes (snd (Use 0 [4] oneRouter)) 0) = [4]
   \<and> fst (Use 1 [4] (snd (handle 1 {GET} ''/dashboard'' (UserHandler 7) twoRouters))) =
       Panicked MiddlewareAfterRoutes
   \<and> fst (Use 1 [4] (snd (handle 1 {GET} ''/x'' (UserHandler 2) groupSite))) =
       Panicked MiddlewareAfterRoutes
   \<and> fst (ServeHTTP (\<lambda>h. echo 0) 0 (newRequest ''GET'' ''/admin'') adminSite) = Returned ()
   \<and> Use 0 [4] adminSite = (Panicked MiddlewareAfterRoutes, adminSite)
   \<and> fst (Use 0 [4] (snd (ServeHTTP (\<lambda>h. echo 0) 0 (newRequest ''GET'' ''/admin'') adminSite))) =
       Panicked MiddlewareAfterRoutes"
proof -
  have a: "handler (muxes oneRouter 0) = None"
    by (simp add: oneRouter_def NewMux_def emptyWorld_def)
  have b: "handle 1 {GET} ''/dashboard'' (UserHandler 7) twoRouters =
      (Returned 0, snd (handle 1 {GET} ''/dashboard'' (UserHandler 7) twoRouters))"
    by (simp add: handle_rooted twoRouters_facts)
  have c: "handle 1 {GET} ''/x'' (UserHandler 2) groupSite =
      (Returned 0, snd (handle 1 {GET} ''/x'' (UserHandler 2) groupSite))"
    by (simp add: handle_rooted groupSite_facts)
  have d: "fst (ServeHTTP (\<lambda>h. echo 0) 0 (newRequest ''GET'' ''/admin'') adminSite) = Returned ()"
    by (simp add: ServeHTTP_def adminSite_facts newRequest_def pool_Get_def NewRouteContext_def
        echo_def WithContext_def)
  have e: "\<forall>h' r' w''. handler (muxes (snd (echo 0 r' w'')) 0) = handler (muxes w'' 0)"
    by (simp add: echo_def)
  let ?r = "newRequest ''GET'' ''/admin''"
  note t1 = Use_appends_or_fails [of oneRouter 0 "[4]" "{GET}" "''/''" HttpNotFound 0 oneRouter
      "\<lambda>h. echo 0" ?r]
  note t2 = Use_appends_or_fails [of twoRouters 1 "[4]" "{GET}" "''/dashboard''" "UserHandler 7" 0
      "snd (handle 1 {GET} ''/dashboard'' (UserHandler 7) twoRouters)" "\<lambda>h. echo 0" ?r]
  note t3 = Use_appends_or_fails [of groupSite 1 "[4]" "{GET}" "''/x''" "UserHandler 2" 0
      "snd (handle 1 {GET} ''/x'' (UserHandler 2) groupSite)" "\<lambda>h. echo 0" ?r]
  note t4 = Use_appends_or_fails [of adminSite 0 "[4]" "{GET}" "''/''" HttpNotFound 0 adminSite
      "\<lambda>h. echo 0" ?r]
  have p1: "Use 0 [4] oneRouter = (Returned (),
      oneRouter\<lparr>muxes := (muxes oneRouter)(0 := (muxes oneRouter 0)
        \<lparr>middlewares := middlewares (muxes oneRouter 0) @ [4]\<rparr>)\<rparr>)"
    using t1 a by blast
  have p2: "Use 1 [4] (snd (handle 1 {GET} ''/dashboard'' (UserHandler 7) twoRouters)) =
      (Panicked MiddlewareAfterRoutes, snd (handle 1 {GET} ''/dashboard'' (UserHandler 7) twoRouters))"
    using t2 b by blast
  have p3: "Use 1 [4] (snd (handle 1 {GET} ''/x'' (UserHandler 2) groupSite)) =
      (Panicked MiddlewareAfterRoutes, snd (handle 1 {GET} ''/x'' (UserHandler 2) groupSite))"
    using t3 c by blast
  have d': "fst (ServeHTTP (\<lambda>h. echo 0) 0 ?r adminSite) \<noteq> Panicked NoHandlers"
    using d by simp
  have p4: "Use 0 [4] adminSite = (Panicked MiddlewareAfterRoutes, adminSite)"
    using t4 d' by blast
  have p5: "Use 0 [4] (snd (ServeHTTP (\<lambda>h. echo 0) 0 ?r adminSite)) =
      (Panicked MiddlewareAfterRoutes, snd (ServeHTTP (\<lambda>h. echo 0) 0 ?r adminSite))"
    using t4 d' e by blast
  have m: "middlewares (muxes oneRouter 0) = []"
    by (simp add: oneRouter_def NewMux_def emptyWorld_def)
  show ?thesis
    using p1 p2 p3 p4 p5 d m by simp
qed

subsection \<open>ServeHTTP\<close>

text \<open>
  C2. On a router whose composed handler is built: when the scope of the request carries a
  routing context, \<^verbatim>\<open>ServeHTTP\<close> is the invocation of the composed handler on the same
  request and the same store, and nothing else (no item is taken from the pool, no context
  is reset, nothing is put back). When the scope carries none (the outermost call),
  \<^verbatim>\<open>ServeHTTP\<close> takes a context from the pool, and invokes the composed handler on the
  request scoped by that context, in the store where the context has no parameters, no
  override path and the scope of the caller as its parent; the context is put back when
  the handler returns. A pool that yields no context (it is empty and has no constructor)
  makes the type assertion panic.
\<close>

theorem ServeHTTP_nested_reuses_context:
  assumes "handler (muxes w m) = Some h"
  shows "(routeCtxValue (req_Context r) = Some c \<longrightarrow> ServeHTTP call m r w = call h r w)
    \<and> (routeCtxValue (req_Context r) = None \<and> pool_Get m w = (Some c', w1) \<longrightarrow>
         ServeHTTP call m r w =
           (case call h (WithContext r c')
                   (w1\<lparr>ctxs := (ctxs w1)(c' :=
                       \<lparr>Params = Map.empty, RoutePath = [], parent = req_Context r\<rparr>)\<rparr>) of
              (Returned u, w3) \<Rightarrow> (Returned (), pool_Put m c' w3)
            | (Panicked e, w3) \<Rightarrow> (Panicked e, w3)
            | (Diverged, w3) \<Rightarrow> (Diverged, w3)))
    \<and> (routeCtxValue (req_Context r) = None \<and> pool_Get m w = (None, w1) \<longrightarrow>
         ServeHTTP call m r w = (Panicked NilContext, w1))"
  using assms ServeHTTP_nested ServeHTTP_outermost ServeHTTP_no_context by blast

text \<open>
  On the admin site, a request that carries the context 0 is served by the router 1
  as its composed handler serves it: no context is allocated and the pool stays empty.
  A request without a context is served by the router 0 with the new context 0, which
  is in the pool afterwards.
\<close>

theorem ServeHTTP_nested_reuses_context_witness:
  "ServeHTTP run 1 (WithContext (newRequest ''GET'' ''/dashboard'') 0) adminSite =
     run (RouteHTTP 1) (WithContext (newRequest ''GET'' ''/dashboard'') 0) adminSite
   \<and> resp (snd (ServeHTTP run 1 (WithContext (newRequest ''GET'' ''/dashboard'') 0) adminSite)) =
       [WriteHeader 207, Write []]
   \<and> items (pool (muxes
        (snd (ServeHTTP run 1 (WithContext (newRequest ''GET'' ''/dashboard'') 0) adminSite)) 1)) = []
   \<and> next_ctx (snd (ServeHTTP run 1 (WithContext (newRequest ''GET'' ''/dashboard'') 0) adminSite)) = 0
   \<and> fst (ServeHTTP run 0 (newRequest ''GET'' ''/admin/dashboard'') adminSite) = Returned ()
   \<and> resp (snd (ServeHTTP run 0 (newRequest ''GET'' ''/admin/dashboard'') adminSite)) =
       [WriteHeader 207, Write ''/dashboard'']
   \<and> items (pool (muxes (snd (ServeHTTP run 0 (newRequest ''GET'' ''/admin/dashboard'') adminSite)) 0)) = [0]"
proof -
  let ?r1 = "WithContext (newRequest ''GET'' ''/dashboard'') 0"
  let ?r0 = "newRequest ''GET'' ''/admin/dashboard''"
  have h1: "handler (muxes adminSite 1) = Some (RouteHTTP 1)"
    and h0: "handler (muxes adminSite 0) = Some (RouteHTTP 0)"
    by (simp_all add: adminSite_facts)
  have c1: "routeCtxValue (req_Context ?r1) = Some 0"
    and c0: "routeCtxValue (req_Context ?r0) = None"
    by (simp_all add: WithContext_def newRequest_def)
  have g: "pool_Get 0 adminSite = (Some 0, snd (pool_Get 0 adminSite))"
    by (simp add: pool_Get_def adminSite_facts NewRouteContext_def)
  have n: "ServeHTTP run 1 ?r1 adminSite = run (RouteHTTP 1) ?r1 adminSite"
    using ServeHTTP_nested_reuses_context [OF h1, of ?r1 0 run 0 adminSite] c1 by blast
  have o: "ServeHTTP run 0 ?r0 adminSite =
      (case run (RouteHTTP 0) (WithContext ?r0 0)
              ((snd (pool_Get 0 adminSite))\<lparr>ctxs := (ctxs (snd (pool_Get 0 adminSite)))(0 :=
                  \<lparr>Params = Map.empty, RoutePath = [], parent = req_Context ?r0\<rparr>)\<rparr>) of
         (Returned u, w3) \<Rightarrow> (Returned (), pool_Put 0 0 w3)
       | (Panicked e, w3) \<Rightarrow> (Panicked e, w3)
       | (Diverged, w3) \<Rightarrow> (Diverged, w3))"
    using ServeHTTP_nested_reuses_context [OF h0, of ?r0 0 run 0 "snd (pool_Get 0 adminSite)"] c0 g
    by blast
  have e1: "resp (snd (run (RouteHTTP 1) ?r1 adminSite)) = [WriteHeader 207, Write []]"
    "items (pool (muxes (snd (run (RouteHTTP 1) ?r1 adminSite)) 1)) = []"
    "next_ctx (snd (run (RouteHTTP 1) ?r1 adminSite)) = 0"
    by (simp_all add: dispatch_defs adminSite_facts)
  have e0: "fst (ServeHTTP run 0 ?r0 adminSite) = Returned ()"
    "resp (snd (ServeHTTP run 0 ?r0 adminSite)) = [WriteHeader 207, Write ''/dashboard'']"
    "items (pool (muxes (snd (ServeHTTP run 0 ?r0 adminSite)) 0)) = [0]"
    unfolding o by (simp_all add: dispatch_defs adminSite_facts)
  show ?thesis
    using n e1 e0 by simp
qed

text \<open>
  C3, as stated: the context that an outermost \<^verbatim>\<open>ServeHTTP\<close> took from the pool is put back
  on every exit path, however the invoked handler exits. It fails when the handler
  panics. On the admin site, with a leaf handler that panics, serving
  \<^verbatim>\<open>GET /admin/dashboard\<close> the router 0 takes the new context 0, the panic of the leaf
  handler leaves the \<^verbatim>\<open>ServeHTTP\<close> of the router 0 before \<^verbatim>\<open>mx.pool.Put\<close>, and the pool of
  the router 0 is empty afterwards. The same happens with the code of the router alone:
  the router 1 has no route and is mounted at \<^verbatim>\<open>/e\<close> of the router 0; serving \<^verbatim>\<open>GET /e\<close>,
  the router 0 forwards to the router 1, whose \<^verbatim>\<open>ServeHTTP\<close> panics.
\<close>

theorem ServeHTTP_release_counterexample:
  "fst (ServeHTTP runFailing 0 (newRequest ''GET'' ''/admin/dashboard'') adminSite) =
     Panicked (HandlerPanic ''boom'')
   \<and> next_ctx (snd (ServeHTTP runFailing 0 (newRequest ''GET'' ''/admin/dashboard'') adminSite)) = 1
   \<and> items (pool (muxes
        (snd (ServeHTTP runFailing 0 (newRequest ''GET'' ''/admin/dashboard'') adminSite)) 0)) = []
   \<and> fst (ServeHTTP run 0 (newRequest ''GET'' ''/e'') emptyMount) = Panicked NoHandlers
   \<and> next_ctx (snd (ServeHTTP run 0 (newRequest ''GET'' ''/e'') emptyMount)) = 1
   \<and> items (pool (muxes (snd (ServeHTTP run 0 (newRequest ''GET'' ''/e'') emptyMount)) 0)) = []"
  by (simp add: dispatch_defs emptyMount_facts adminSite_facts)

text \<open>
  C3, amended. In an outermost \<^verbatim>\<open>ServeHTTP\<close> that took the context \<open>c\<close> from the pool: when
  the composed handler returns, whatever it did to the response and the store,
  \<^verbatim>\<open>ServeHTTP\<close> returns and the context is the first item of the router's pool, the
  response and the contexts being as the handler left them; when the composed handler
  panics, the panic is the result of \<^verbatim>\<open>ServeHTTP\<close> and the store is as the handler left
  it, the context not put back.
\<close>

theorem ServeHTTP_releases_on_return:
  assumes "handler (muxes w m) = Some h"
    and "routeCtxValue (req_Context r) = None"
    and "pool_Get m w = (Some c, w1)"
  shows "(call h (WithContext r c)
            (w1\<lparr>ctxs := (ctxs w1)(c :=
                \<lparr>Params = Map.empty, RoutePath = [], parent = req_Context r\<rparr>)\<rparr>) = (Returned u, w3) \<longrightarrow>
          ServeHTTP call m r w = (Returned (), pool_Put m c w3)
          \<and> items (pool (muxes (pool_Put m c w3) m)) = c # items (pool (muxes w3 m))
          \<and> resp (pool_Put m c w3) = resp w3
          \<and> ctxs (pool_Put m c w3) = ctxs w3)
    \<and> (call h (WithContext r c)
            (w1\<lparr>ctxs := (ctxs w1)(c :=
                \<lparr>Params = Map.empty, RoutePath = [], parent = req_Context r\<rparr>)\<rparr>) = (Panicked e, w3) \<longrightarrow>
          ServeHTTP call m r w = (Panicked e, w3))"
  using ServeHTTP_outermost [OF assms, of call] by (simp add: pool_Put_def)

text \<open>
  On the admin site \<^verbatim>\<open>POST /admin/dashboard\<close> is answered with 405 by the router 1, and
  the context 0 that the router 0 took is in its pool afterwards.
\<close>

theorem ServeHTTP_releases_on_return_witness:
  "ServeHTTP run 0 (newRequest ''POST'' ''/admin/dashboard'') adminSite =
     (Returned (),
      pool_Put 0 0 (snd (run (RouteHTTP 0) (WithContext (newRequest ''POST'' ''/admin/dashboard'') 0)
        ((snd (pool_Get 0 adminSite))\<lparr>ctxs := (ctxs (snd (pool_Get 0 adminSite)))(0 :=
            \<lparr>Params = Map.empty, RoutePath = [], parent = Background\<rparr>)\<rparr>))))
   \<and> resp (snd (ServeHTTP run 0 (newRequest ''POST'' ''/admin/dashboard'') adminSite)) =
       [WriteHeader 405, Write []]
   \<and> items (pool (muxes (snd (ServeHTTP run 0 (newRequest ''POST'' ''/admin/dashboard'') adminSite)) 0)) = [0]"
proof -
  let ?r = "newRequest ''POST'' ''/admin/dashboard''"
  let ?w1 = "snd (pool_Get 0 adminSite)"
  let ?w2 = "?w1\<lparr>ctxs := (ctxs ?w1)(0 :=
      \<lparr>Params = Map.empty, RoutePath = [], parent = req_Context ?r\<rparr>)\<rparr>"
  have h: "handler (muxes adminSite 0) = Some (RouteHTTP 0)"
    by (simp add: adminSite_facts)
  have c: "routeCtxValue (req_Context ?r) = None"
    by (simp add: newRequest_def)
  have g: "pool_Get 0 adminSite = (Some 0, ?w1)"
    by (simp add: pool_Get_def adminSite_facts NewRouteContext_def)
  have x: "run (RouteHTTP 0) (WithContext ?r 0) ?w2 =
      (Returned (), snd (run (RouteHTTP 0) (WithContext ?r 0) ?w2))"
    by (simp add: dispatch_defs adminSite_facts)
  have p: "req_Context ?r = Background"
    by (simp add: newRequest_def)
  have s: "ServeHTTP run 0 ?r adminSite =
      (Returned (), pool_Put 0 0 (snd (run (RouteHTTP 0) (WithContext ?r 0) ?w2)))"
    using ServeHTTP_releases_on_return [OF h c g, of run "()"
        "snd (run (RouteHTTP 0) (WithContext ?r 0) ?w2)"] x
    by blast
  have e: "resp (pool_Put 0 0 (snd (run (RouteHTTP 0) (WithContext ?r 0) ?w2))) =
        [WriteHeader 405, Write []]"
    "items (pool (muxes (pool_Put 0 0 (snd (run (RouteHTTP 0) (WithContext ?r 0) ?w2))) 0)) = [0]"
    by (simp_all add: dispatch_defs adminSite_facts)
  show ?thesis
    using s e p by simp
qed




subsection \<open>routeHTTP\<close>

text \<open>
  C1. For a request that carries a routing context, \<^verbatim>\<open>routeHTTP\<close> resolves in this order.
  When the method of the request is not in \<^verbatim>\<open>MethodMap\<close>, it writes 405 and returns, for
  every lookup function of the pattern store and whatever the handlers do: the store is
  not queried and nothing but the response changes. Otherwise it queries the store with
  the effective path (the override path of the context when it is not empty, else the
  path of the request). When the store finds no route, it invokes the not-found handler
  of the router when one is set, else \<^verbatim>\<open>http.NotFound\<close>. When the store finds a route
  without a handler for the method, it writes 405 and invokes no handler. Otherwise it
  invokes the handler of the route for the method.
\<close>

theorem routeHTTP_outcome:
  assumes "routeCtxValue (req_Context r) = Some c"
  shows "(MethodMap (req_Method r) = None \<longrightarrow>
           (\<forall>call' find'. routeHTTP call' find' m r w =
              (Returned (), w\<lparr>resp := resp w @ [WriteHeader 405, Write []]\<rparr>)))
    \<and> (MethodMap (req_Method r) = Some meth
        \<and> findRoute (trees w (tree (muxes w m))) (ctxs w c)
            (if RoutePath (ctxs w c) = [] then URL_Path r else RoutePath (ctxs w c)) = (rctx, None) \<longrightarrow>
          routeHTTP call findRoute m r w =
            call (case notFoundHandler (muxes w m) of Some nf \<Rightarrow> nf | None \<Rightarrow> HttpNotFound) r
              (w\<lparr>ctxs := (ctxs w)(c := rctx)\<rparr>))
    \<and> (MethodMap (req_Method r) = Some meth
        \<and> findRoute (trees w (tree (muxes w m))) (ctxs w c)
            (if RoutePath (ctxs w c) = [] then URL_Path r else RoutePath (ctxs w c)) = (rctx, Some hs)
        \<and> hs meth = None \<longrightarrow>
          routeHTTP call findRoute m r w =
            (Returned (),
             w\<lparr>ctxs := (ctxs w)(c := rctx), resp := resp w @ [WriteHeader 405, Write []]\<rparr>))
    \<and> (MethodMap (req_Method r) = Some meth
        \<and> findRoute (trees w (tree (muxes w m))) (ctxs w c)
            (if RoutePath (ctxs w c) = [] then URL_Path r else RoutePath (ctxs w c)) = (rctx, Some hs)
        \<and> hs meth = Some h \<longrightarrow>
          routeHTTP call findRoute m r w = call h r (w\<lparr>ctxs := (ctxs w)(c := rctx)\<rparr>))"
  using assms
  by (simp add: routeHTTP_def Let_def methodNotAllowedHandler_def NotFoundHandler_def)

text \<open>
  The router 1 of the admin site answers \<^verbatim>\<open>GET /dashboard\<close> only. With the context 0 in
  the request: the method \<^verbatim>\<open>BREW\<close> gets 405, \<^verbatim>\<open>GET /nope\<close> gets the 404 of \<^verbatim>\<open>http.NotFound\<close>,
  \<^verbatim>\<open>POST /dashboard\<close> gets 405, and \<^verbatim>\<open>GET /dashboard\<close> reaches the handler 7.
\<close>

theorem routeHTTP_outcome_witness:
  "routeHTTP run FindRoute 1 (WithContext (newRequest ''BREW'' ''/dashboard'') 0) adminSite =
     (Returned (), adminSite\<lparr>resp := [WriteHeader 405, Write []]\<rparr>)
   \<and> resp (snd (routeHTTP run FindRoute 1 (WithContext (newRequest ''GET'' ''/nope'') 0) adminSite)) =
       [WriteHeader 404, Write ''404 page not found\<newline>'']
   \<and> resp (snd (routeHTTP run FindRoute 1 (WithContext (newRequest ''POST'' ''/dashboard'') 0) adminSite)) =
       [WriteHeader 405, Write []]
   \<and> routeHTTP run FindRoute 1 (WithContext (newRequest ''GET'' ''/dashboard'') 0) adminSite =
       run (UserHandler 7) (WithContext (newRequest ''GET'' ''/dashboard'') 0)
         (adminSite\<lparr>ctxs := (ctxs adminSite)(0 :=
            fst (FindRoute (trees adminSite 1) (ctxs adminSite 0) ''/dashboard''))\<rparr>)
   \<and> resp (snd (routeHTTP run FindRoute 1 (WithContext (newRequest ''GET'' ''/dashboard'') 0) adminSite)) =
       [WriteHeader 207, Write []]"
proof -
  let ?brew = "WithContext (newRequest ''BREW'' ''/dashboard'') 0"
  let ?nope = "WithContext (newRequest ''GET'' ''/nope'') 0"
  let ?post = "WithContext (newRequest ''POST'' ''/dashboard'') 0"
  let ?get = "WithContext (newRequest ''GET'' ''/dashboard'') 0"
  let ?hs = "handlersOf (trees adminSite 1) ''/dashboard''"
  let ?rc = "fst (FindRoute (trees adminSite 1) (ctxs adminSite 0) ''/dashboard'')"
  have c: "routeCtxValue (req_Context ?brew) = Some 0" "routeCtxValue (req_Context ?nope) = Some 0"
    "routeCtxValue (req_Context ?post) = Some 0" "routeCtxValue (req_Context ?get) = Some 0"
    by (simp_all add: WithContext_def)
  have m: "MethodMap (req_Method ?brew) = None" "MethodMap (req_Method ?nope) = Some GET"
    "MethodMap (req_Method ?post) = Some POST" "MethodMap (req_Method ?get) = Some GET"
    by (simp_all add: WithContext_def newRequest_def MethodMap_def)
  have p: "(if RoutePath (ctxs adminSite 0) = [] then URL_Path ?nope else RoutePath (ctxs adminSite 0)) = ''/nope''"
    "(if RoutePath (ctxs adminSite 0) = [] then URL_Path ?post else RoutePath (ctxs adminSite 0)) = ''/dashboard''"
    "(if RoutePath (ctxs adminSite 0) = [] then URL_Path ?get else RoutePath (ctxs adminSite 0)) = ''/dashboard''"
    by (simp_all add: WithContext_def newRequest_def adminSite_facts)
  have t: "tree (muxes adminSite 1) = 1" "notFoundHandler (muxes adminSite 1) = None"
    by (simp_all add: adminSite_facts)
  have f1: "FindRoute (trees adminSite 1) (ctxs adminSite 0) ''/nope'' = (ctxs adminSite 0, None)"
    by (simp add: FindRoute_def matches_def adminSite_facts)
  have f2: "FindRoute (trees adminSite 1) (ctxs adminSite 0) ''/dashboard'' = (?rc, Some ?hs)"
    by (simp add: FindRoute_def matches_def captured_def adminSite_facts)
  have k: "?hs POST = None" "?hs GET = Some (UserHandler 7)"
    by (simp_all add: handlersOf_def adminSite_facts)
  have r1: "routeHTTP run FindRoute 1 ?brew adminSite =
      (Returned (), adminSite\<lparr>resp := resp adminSite @ [WriteHeader 405, Write []]\<rparr>)"
    using routeHTTP_outcome [OF c(1), where meth = GET and findRoute = FindRoute and w = adminSite
          and m = 1 and rctx = "ctxs adminSite 0" and call = run and hs = ?hs and h = HttpNotFound]
      m(1) by blast
  have r2: "routeHTTP run FindRoute 1 ?nope adminSite =
      run HttpNotFound ?nope (adminSite\<lparr>ctxs := (ctxs adminSite)(0 := ctxs adminSite 0)\<rparr>)"
    using routeHTTP_outcome [OF c(2), where meth = GET and findRoute = FindRoute and w = adminSite
          and m = 1 and rctx = "ctxs adminSite 0" and call = run and hs = ?hs and h = HttpNotFound]
      m(2) f1 p(1) t by simp
  have r3: "routeHTTP run FindRoute 1 ?post adminSite =
      (Returned (), adminSite\<lparr>ctxs := (ctxs adminSite)(0 := ?rc),
         resp := resp adminSite @ [WriteHeader 405, Write []]\<rparr>)"
    using routeHTTP_outcome [OF c(3), where meth = POST and findRoute = FindRoute and w = adminSite
          and m = 1 and rctx = ?rc and call = run and hs = ?hs and h = HttpNotFound]
      m(3) f2 p(2) t k(1) by simp
  have r4: "routeHTTP run FindRoute 1 ?get adminSite =
      run (UserHandler 7) ?get (adminSite\<lparr>ctxs := (ctxs adminSite)(0 := ?rc)\<rparr>)"
    using routeHTTP_outcome [OF c(4), where meth = GET and findRoute = FindRoute and w = adminSite
          and m = 1 and rctx = ?rc and call = run and hs = ?hs and h = "UserHandler 7"]
      m(4) f2 p(3) t k(2) by simp
  have e: "RoutePath ?rc = []"
    by (simp add: FindRoute_def matches_def captured_def adminSite_facts)
  show ?thesis
    unfolding r1 r2 r3 r4 using e
    by (simp add: run_def serve_def echo_def WithContext_def adminSite_facts)
qed

subsection \<open>The forwarding handler of Mount\<close>

text \<open>
  What the modelled store captures for the wildcard route of a mount: for a prefix
  without placeholders, the pattern of the prefix followed by \<^verbatim>\<open>/*\<close> matches the prefix
  followed by a slash and any rest, and captures that rest under the key \<^verbatim>\<open>*\<close>.
\<close>

lemma matchPattern_mount:
  "CHR ''{'' \<notin> set pat \<Longrightarrow>
   matchPattern (pat @ ''/*'') None (pat @ ''/'' @ rest) = Some [(''*'', rest)]"
  by (induction pat) auto

text \<open>
  C5, as stated: for every mounted handler the forwarding handler sets the override path
  and the nested dispatch uses it, so that the mounted handler sees only the suffix of the
  original path after the mount prefix. It fails for a mounted handler that is not a
  router: the forwarding handler passes the request on as it is, and \<^verbatim>\<open>mux.go\<close> never
  rewrites the path of a request. A handler of the user is mounted at \<^verbatim>\<open>/static\<close>; for
  \<^verbatim>\<open>GET /static/css/site.css\<close> it gets a request whose path is the whole original path, and
  finds the suffix only in the override path of the routing context.
\<close>

theorem Mount_wrapper_path_counterexample:
  "fst (ServeHTTP runPath 0 (newRequest ''GET'' ''/static/css/site.css'') staticSite) = Returned ()
   \<and> resp (snd (ServeHTTP runPath 0 (newRequest ''GET'' ''/static/css/site.css'') staticSite)) =
       [WriteHeader 209, Write ''/static/css/site.css'']
   \<and> resp (snd (ServeHTTP run 0 (newRequest ''GET'' ''/static/css/site.css'') staticSite)) =
       [WriteHeader 209, Write ''/css/site.css'']"
  by (simp add: dispatch_defs staticSite_facts)

text \<open>
  C5, amended. For a request that carries the routing context \<open>c\<close>, the forwarding handler
  that \<^verbatim>\<open>Mount\<close> installs invokes the mounted handler on the request as it is (its path is
  the original path), in the store where the override path of the context is a slash
  followed by the value captured under the key \<^verbatim>\<open>*\<close> (nothing when there is none), that
  key being deleted. \<^verbatim>\<open>routeHTTP\<close> queries the pattern store with the override path of the
  context when it is not empty, whatever the path of the request, and with the path of
  the request when the override path is empty; what it does next is decided by what the
  store finds there. So a mounted router whose composed handler is \<^verbatim>\<open>routeHTTP\<close> looks the
  request up in its own tree at the slash followed by the captured value, and invokes the
  handler that its store has there, its not-found handler when there is none, or answers
  405 when the route has no handler for the method.
\<close>

theorem Mount_wrapper_path:
  assumes "routeCtxValue (req_Context r) = Some c"
  shows "subHandler call h r w =
           call h r (w\<lparr>ctxs := (ctxs w)(c := (ctxs w c)
             \<lparr>Params := (Params (ctxs w c))(''*'' := None),
              RoutePath := ''/'' @ (case Params (ctxs w c) ''*'' of None \<Rightarrow> [] | Some v \<Rightarrow> v)\<rparr>)\<rparr>)
    \<and> (MethodMap (req_Method r) = Some meth \<and> RoutePath (ctxs w c) \<noteq> []
        \<and> findRoute (trees w (tree (muxes w s))) (ctxs w c) (RoutePath (ctxs w c)) = (rctx, found) \<longrightarrow>
          routeHTTP call findRoute s r w =
            (case found of
               None \<Rightarrow> call (NotFoundHandler (muxes w s)) r (w\<lparr>ctxs := (ctxs w)(c := rctx)\<rparr>)
             | Some hs \<Rightarrow>
                 (case hs meth of
                    None \<Rightarrow>
                      (Returned (),
                       w\<lparr>ctxs := (ctxs w)(c := rctx),
                         resp := resp w @ [WriteHeader 405, Write []]\<rparr>)
                  | Some h' \<Rightarrow> call h' r (w\<lparr>ctxs := (ctxs w)(c := rctx)\<rparr>))))
    \<and> (MethodMap (req_Method r) = Some meth \<and> RoutePath (ctxs w c) = []
        \<and> findRoute (trees w (tree (muxes w s))) (ctxs w c) (URL_Path r) = (rctx, found) \<longrightarrow>
          routeHTTP call findRoute s r w =
            (case found of
               None \<Rightarrow> call (NotFoundHandler (muxes w s)) r (w\<lparr>ctxs := (ctxs w)(c := rctx)\<rparr>)
             | Some hs \<Rightarrow>
                 (case hs meth of
                    None \<Rightarrow>
                      (Returned (),
                       w\<lparr>ctxs := (ctxs w)(c := rctx),
                         resp := resp w @ [WriteHeader 405, Write []]\<rparr>)
                  | Some h' \<Rightarrow> call h' r (w\<lparr>ctxs := (ctxs w)(c := rctx)\<rparr>))))
    \<and> (handler (muxes w s) = Some (RouteHTTP s) \<and> Params (ctxs w c) ''*'' = Some rest
        \<and> MethodMap (req_Method r) = Some meth
        \<and> findRoute (trees w (tree (muxes w s)))
             ((ctxs w c)\<lparr>Params := (Params (ctxs w c))(''*'' := None), RoutePath := ''/'' @ rest\<rparr>)
             (''/'' @ rest) = (rctx, found) \<longrightarrow>
          subHandler (exec user mw findRoute (Suc (Suc n))) (MuxHandler s) r w =
            (case found of
               None \<Rightarrow>
                 exec user mw findRoute n (NotFoundHandler (muxes w s)) r
                   (w\<lparr>ctxs := (ctxs w)(c := rctx)\<rparr>)
             | Some hs \<Rightarrow>
                 (case hs meth of
                    None \<Rightarrow>
                      (Returned (),
                       w\<lparr>ctxs := (ctxs w)(c := rctx),
                         resp := resp w @ [WriteHeader 405, Write []]\<rparr>)
                  | Some h' \<Rightarrow>
                      exec user mw findRoute n h' r (w\<lparr>ctxs := (ctxs w)(c := rctx)\<rparr>))))"
proof (intro conjI impI)
  show sub: "subHandler call h r w =
           call h r (w\<lparr>ctxs := (ctxs w)(c := (ctxs w c)
             \<lparr>Params := (Params (ctxs w c))(''*'' := None),
              RoutePath := ''/'' @ (case Params (ctxs w c) ''*'' of None \<Rightarrow> [] | Some v \<Rightarrow> v)\<rparr>)\<rparr>)"
    for call h
    using assms by (simp add: subHandler_def Params_Del_def)
  show "routeHTTP call findRoute s r w =
            (case found of
               None \<Rightarrow> call (NotFoundHandler (muxes w s)) r (w\<lparr>ctxs := (ctxs w)(c := rctx)\<rparr>)
             | Some hs \<Rightarrow>
                 (case hs meth of
                    None \<Rightarrow>
                      (Returned (),
                       w\<lparr>ctxs := (ctxs w)(c := rctx),
                         resp := resp w @ [WriteHeader 405, Write []]\<rparr>)
                  | Some h' \<Rightarrow> call h' r (w\<lparr>ctxs := (ctxs w)(c := rctx)\<rparr>)))"
    if "MethodMap (req_Method r) = Some meth \<and> RoutePath (ctxs w c) \<noteq> []
        \<and> findRoute (trees w (tree (muxes w s))) (ctxs w c) (RoutePath (ctxs w c)) = (rctx, found)"
    using that assms
    by (simp add: routeHTTP_def Let_def methodNotAllowedHandler_def split: option.splits)
  show "routeHTTP call findRoute s r w =
            (case found of
               None \<Rightarrow> call (NotFoundHandler (muxes w s)) r (w\<lparr>ctxs := (ctxs w)(c := rctx)\<rparr>)
             | Some hs \<Rightarrow>
                 (case hs meth of
                    None \<Rightarrow>
                      (Returned (),
                       w\<lparr>ctxs := (ctxs w)(c := rctx),
                         resp := resp w @ [WriteHeader 405, Write []]\<rparr>)
                  | Some h' \<Rightarrow> call h' r (w\<lparr>ctxs := (ctxs w)(c := rctx)\<rparr>)))"
    if "MethodMap (req_Method r) = Some meth \<and> RoutePath (ctxs w c) = []
        \<and> findRoute (trees w (tree (muxes w s))) (ctxs w c) (URL_Path r) = (rctx, found)"
    using that assms
    by (simp add: routeHTTP_def Let_def methodNotAllowedHandler_def split: option.splits)
  show "subHandler (exec user mw findRoute (Suc (Suc n))) (MuxHandler s) r w =
            (case found of
               None \<Rightarrow>
                 exec user mw findRoute n (NotFoundHandler (muxes w s)) r
                   (w\<lparr>ctxs := (ctxs w)(c := rctx)\<rparr>)
             | Some hs \<Rightarrow>
                 (case hs meth of
                    None \<Rightarrow>
                      (Returned (),
                       w\<lparr>ctxs := (ctxs w)(c := rctx),
                         resp := resp w @ [WriteHeader 405, Write []]\<rparr>)
                  | Some h' \<Rightarrow>
                      exec user mw findRoute n h' r (w\<lparr>ctxs := (ctxs w)(c := rctx)\<rparr>)))"
    if "handler (muxes w s) = Some (RouteHTTP s) \<and> Params (ctxs w c) ''*'' = Some rest
        \<and> MethodMap (req_Method r) = Some meth
        \<and> findRoute (trees w (tree (muxes w s)))
             ((ctxs w c)\<lparr>Params := (Params (ctxs w c))(''*'' := None), RoutePath := ''/'' @ rest\<rparr>)
             (''/'' @ rest) = (rctx, found)"
    using that assms
    by (simp add: sub serve_def ServeHTTP_def routeHTTP_def Let_def methodNotAllowedHandler_def
        split: option.splits)
qed

text \<open>
  On the admin site, after the router 0 has matched \<^verbatim>\<open>/admin/*\<close> for
  \<^verbatim>\<open>GET /admin/dashboard\<close>, the context holds \<^verbatim>\<open>dashboard\<close> under \<^verbatim>\<open>*\<close>; the forwarding
  handler hands the request to the router 1, which looks \<^verbatim>\<open>/dashboard\<close> up in its tree and
  invokes the handler 7 registered there. For \<^verbatim>\<open>GET /admin/dashboard/settings\<close> the context
  holds \<^verbatim>\<open>dashboard/settings\<close>, the router 1 has no route for \<^verbatim>\<open>/dashboard/settings\<close> and
  answers not found.
\<close>

theorem Mount_wrapper_path_witness:
  "Params (ctxs matchedAdmin 0) ''*'' = Some ''dashboard''
   \<and> subHandler run (MuxHandler 1) (WithContext (newRequest ''GET'' ''/admin/dashboard'') 0) matchedAdmin =
       exec echo pass FindRoute (Suc (Suc (Suc (Suc 0)))) (UserHandler 7)
         (WithContext (newRequest ''GET'' ''/admin/dashboard'') 0)
         (matchedAdmin\<lparr>ctxs := (ctxs matchedAdmin)(0 :=
            \<lparr>Params = Map.empty, RoutePath = ''/dashboard'', parent = Background\<rparr>)\<rparr>)
   \<and> resp (snd (subHandler run (MuxHandler 1)
          (WithContext (newRequest ''GET'' ''/admin/dashboard'') 0) matchedAdmin)) =
       [WriteHeader 207, Write ''/dashboard'']
   \<and> Params (ctxs matchedSettings 0) ''*'' = Some ''dashboard/settings''
   \<and> subHandler run (MuxHandler 1)
         (WithContext (newRequest ''GET'' ''/admin/dashboard/settings'') 0) matchedSettings =
       exec echo pass FindRoute (Suc (Suc (Suc (Suc 0)))) HttpNotFound
         (WithContext (newRequest ''GET'' ''/admin/dashboard/settings'') 0)
         (matchedSettings\<lparr>ctxs := (ctxs matchedSettings)(0 :=
            \<lparr>Params = Map.empty, RoutePath = ''/dashboard/settings'', parent = Background\<rparr>)\<rparr>)
   \<and> resp (snd (subHandler run (MuxHandler 1)
          (WithContext (newRequest ''GET'' ''/admin/dashboard/settings'') 0) matchedSettings)) =
       [WriteHeader 404, Write ''404 page not found\<newline>'']"
proof -
  let ?r = "WithContext (newRequest ''GET'' ''/admin/dashboard'') 0"
  let ?q = "WithContext (newRequest ''GET'' ''/admin/dashboard/settings'') 0"
  let ?c = "\<lparr>Params = Map.empty, RoutePath = ''/dashboard'', parent = Background\<rparr>"
  let ?d = "\<lparr>Params = Map.empty, RoutePath = ''/dashboard/settings'', parent = Background\<rparr>"
  let ?hs = "handlersOf (trees adminSite 1) ''/dashboard''"
  have c: "routeCtxValue (req_Context ?r) = Some 0" "routeCtxValue (req_Context ?q) = Some 0"
    by (simp_all add: WithContext_def)
  have m: "MethodMap (req_Method ?r) = Some GET" "MethodMap (req_Method ?q) = Some GET"
    by (simp_all add: WithContext_def newRequest_def MethodMap_def)
  have h: "handler (muxes matchedAdmin 1) = Some (RouteHTTP 1)"
    "handler (muxes matchedSettings 1) = Some (RouteHTTP 1)"
    by (simp_all add: matchedAdmin_facts matchedSettings_facts adminSite_facts)
  have p: "Params (ctxs matchedAdmin 0) ''*'' = Some ''dashboard''"
    "Params (ctxs matchedSettings 0) ''*'' = Some ''dashboard/settings''"
    by (simp_all add: matchedAdmin_facts matchedSettings_facts)
  have u: "(ctxs matchedAdmin 0)\<lparr>Params := (Params (ctxs matchedAdmin 0))(''*'' := None),
        RoutePath := ''/'' @ ''dashboard''\<rparr> = ?c"
    "(ctxs matchedSettings 0)\<lparr>Params := (Params (ctxs matchedSettings 0))(''*'' := None),
        RoutePath := ''/'' @ ''dashboard/settings''\<rparr> = ?d"
    by (simp_all add: matchedAdmin_facts matchedSettings_facts)
  have f: "FindRoute (trees matchedAdmin (tree (muxes matchedAdmin 1))) ?c (''/'' @ ''dashboard'') =
        (?c, Some ?hs)"
    "FindRoute (trees matchedSettings (tree (muxes matchedSettings 1))) ?d
        (''/'' @ ''dashboard/settings'') = (?d, None)"
    by (simp_all add: FindRoute_def matches_def captured_def matchedAdmin_facts
        matchedSettings_facts adminSite_facts)
  have k: "?hs GET = Some (UserHandler 7)"
    by (simp add: handlersOf_def adminSite_facts)
  have n: "NotFoundHandler (muxes matchedSettings 1) = HttpNotFound"
    by (simp add: NotFoundHandler_def matchedSettings_facts adminSite_facts)
  note t1 = Mount_wrapper_path [OF c(1), where w = matchedAdmin and h = "MuxHandler 1"
      and call = run and s = 1 and findRoute = FindRoute and user = echo and mw = pass
      and n = "Suc (Suc (Suc (Suc 0)))" and meth = GET and rest = "''dashboard''"
      and rctx = ?c and found = "Some ?hs", THEN conjunct2, THEN conjunct2, THEN conjunct2]
  note t2 = Mount_wrapper_path [OF c(2), where w = matchedSettings and h = "MuxHandler 1"
      and call = run and s = 1 and findRoute = FindRoute and user = echo and mw = pass
      and n = "Suc (Suc (Suc (Suc 0)))" and meth = GET and rest = "''dashboard/settings''"
      and rctx = ?d and found = None, THEN conjunct2, THEN conjunct2, THEN conjunct2]
  have a: "subHandler run (MuxHandler 1) ?r matchedAdmin =
      exec echo pass FindRoute (Suc (Suc (Suc (Suc 0)))) (UserHandler 7) ?r
        (matchedAdmin\<lparr>ctxs := (ctxs matchedAdmin)(0 := ?c)\<rparr>)"
    using t1 h(1) p(1) m(1) f(1) k unfolding u run_def by simp
  have b: "subHandler run (MuxHandler 1) ?q matchedSettings =
      exec echo pass FindRoute (Suc (Suc (Suc (Suc 0)))) HttpNotFound ?q
        (matchedSettings\<lparr>ctxs := (ctxs matchedSettings)(0 := ?d)\<rparr>)"
    using t2 h(2) p(2) m(2) f(2) n unfolding u run_def by simp
  have e: "resp (snd (subHandler run (MuxHandler 1) ?r matchedAdmin)) =
        [WriteHeader 207, Write ''/dashboard'']"
    unfolding a by (simp add: serve_def echo_def WithContext_def matchedAdmin_facts)
  have g: "resp (snd (subHandler run (MuxHandler 1) ?q matchedSettings)) =
        [WriteHeader 404, Write ''404 page not found\<newline>'']"
    unfolding b by (simp add: serve_def matchedSettings_facts)
  show ?thesis
    using p a b e g by simp
qed

text \<open>
  C10. For a request that carries the routing context \<open>c\<close>, the forwarding handler that
  \<^verbatim>\<open>Mount\<close> installs invokes the mounted handler in a store where the context has no entry
  under the key \<^verbatim>\<open>*\<close>, every other parameter and the parent of the context are as before,
  every other context is as before, and nothing of the store but the contexts has
  changed: only the override path and that one entry of the context differ.
\<close>

theorem Mount_wrapper_frame:
  assumes "routeCtxValue (req_Context r) = Some c"
  shows "\<exists>w'. subHandler call h r w = call h r w'
    \<and> Params (ctxs w' c) ''*'' = None
    \<and> (\<forall>k. k \<noteq> ''*'' \<longrightarrow> Params (ctxs w' c) k = Params (ctxs w c) k)
    \<and> parent (ctxs w' c) = parent (ctxs w c)
    \<and> (\<forall>c'. c' \<noteq> c \<longrightarrow> ctxs w' c' = ctxs w c')
    \<and> w'\<lparr>ctxs := ctxs w\<rparr> = w"
  using assms
  by (intro exI [of _ "w\<lparr>ctxs := (ctxs w)(c := (ctxs w c)
             \<lparr>Params := (Params (ctxs w c))(''*'' := None),
              RoutePath := ''/'' @ (case Params (ctxs w c) ''*'' of None \<Rightarrow> [] | Some v \<Rightarrow> v)\<rparr>)\<rparr>"])
     (simp add: subHandler_def Params_Del_def)

text \<open>
  On the admin site, with \<^verbatim>\<open>dashboard\<close> captured under \<^verbatim>\<open>*\<close> in the context 0, the router 1
  is invoked in a store where the context 0 has no entry under \<^verbatim>\<open>*\<close>.
\<close>

theorem Mount_wrapper_frame_witness:
  "Params (ctxs matchedAdmin 0) ''*'' = Some ''dashboard''
   \<and> (\<exists>w'. subHandler run (MuxHandler 1)
           (WithContext (newRequest ''GET'' ''/admin/dashboard'') 0) matchedAdmin =
         run (MuxHandler 1) (WithContext (newRequest ''GET'' ''/admin/dashboard'') 0) w'
       \<and> Params (ctxs w' 0) ''*'' = None
       \<and> parent (ctxs w' 0) = parent (ctxs matchedAdmin 0)
       \<and> w'\<lparr>ctxs := ctxs matchedAdmin\<rparr> = matchedAdmin)"
proof -
  have c: "routeCtxValue (req_Context (WithContext (newRequest ''GET'' ''/admin/dashboard'') 0)) = Some 0"
    by (simp add: WithContext_def)
  have p: "Params (ctxs matchedAdmin 0) ''*'' = Some ''dashboard''"
    by (simp add: matchedAdmin_facts)
  from Mount_wrapper_frame [OF c, of run "MuxHandler 1" matchedAdmin] p
  show ?thesis by blast
qed

subsection \<open>Mount\<close>

lemma Mount_returned:
  assumes "Mount m pat h w = (Returned u, w')"
  shows "tree (muxes w' m) = tree (muxes w m)
    \<and> (pat @ ''*'' \<in> route_pattern ` set (trees w' (tree (muxes w m)))
       \<or> pat @ ''/*'' \<in> route_pattern ` set (trees w' (tree (muxes w m))))"
proof -
  have "\<not> (findPattern (trees w (tree (muxes w m))) (pat @ ''*'') \<noteq> None
      \<or> findPattern (trees w (tree (muxes w m))) (pat @ ''/*'') \<noteq> None)"
  proof
    assume c: "findPattern (trees w (tree (muxes w m))) (pat @ ''*'') \<noteq> None
      \<or> findPattern (trees w (tree (muxes w m))) (pat @ ''/*'') \<noteq> None"
    from Mount_conflict [OF c, of h] assms show False by simp
  qed
  then have nc: "findPattern (trees w (tree (muxes w m))) (pat @ ''*'') = None"
    "findPattern (trees w (tree (muxes w m))) (pat @ ''/*'') = None"
    by simp_all
  have "\<not> (pat = [] \<or> hd pat \<noteq> CHR ''/'')"
  proof
    assume c: "pat = [] \<or> hd pat \<noteq> CHR ''/''"
    from Mount_unrooted [OF c nc, of h] assms show False by simp
  qed
  then have ro: "pat \<noteq> []" "hd pat = CHR ''/''"
    by simp_all
  show ?thesis
  proof (cases "last pat = CHR ''/''")
    case True
    from assms show ?thesis
      unfolding Mount_slash [OF ro True nc] by (auto simp: inherited_frame)
  next
    case False
    from assms show ?thesis
      unfolding Mount_no_slash [OF ro False nc] by (auto simp: inherited_frame)
  qed
qed

text \<open>
  C6. \<^verbatim>\<open>Mount\<close> panics when the pattern followed by \<^verbatim>\<open>*\<close> or by \<^verbatim>\<open>/*\<close> is a stored pattern
  of the router's tree, and then the whole store is as before: nothing is registered.
  After a \<^verbatim>\<open>Mount\<close> that returned, a second \<^verbatim>\<open>Mount\<close> of the same pattern on the same router,
  with any handler, panics in that way.
\<close>

theorem Mount_rejects_existing:
  "(pat @ ''*'' \<in> route_pattern ` set (trees w (tree (muxes w m)))
      \<or> pat @ ''/*'' \<in> route_pattern ` set (trees w (tree (muxes w m))) \<longrightarrow>
      Mount m pat h w = (Panicked (MountOnExistingPath pat), w))
   \<and> (Mount m pat h w = (Returned u, w') \<longrightarrow>
      Mount m pat h' w' = (Panicked (MountOnExistingPath pat), w'))"
proof (intro conjI impI)
  show "Mount m pat h w = (Panicked (MountOnExistingPath pat), w)"
    if "pat @ ''*'' \<in> route_pattern ` set (trees w (tree (muxes w m)))
      \<or> pat @ ''/*'' \<in> route_pattern ` set (trees w (tree (muxes w m)))"
    using that by (intro Mount_conflict) (simp add: findPattern_stored)
  show "Mount m pat h' w' = (Panicked (MountOnExistingPath pat), w')"
    if "Mount m pat h w = (Returned u, w')"
    using Mount_returned [OF that] by (intro Mount_conflict) (simp add: findPattern_stored)
qed

text \<open>
  The admin site is the result of \<^verbatim>\<open>Mount("/admin", ...)\<close> on the router 0; a second
  \<^verbatim>\<open>Mount\<close> at \<^verbatim>\<open>/admin\<close>, and a \<^verbatim>\<open>Mount\<close> at \<^verbatim>\<open>/admin/\<close>, panic and leave the store as it is.
\<close>

theorem Mount_rejects_existing_witness:
  "Mount 0 ''/admin'' (MuxHandler 1) subSite = (Returned (), adminSite)
   \<and> Mount 0 ''/admin'' (UserHandler 3) adminSite =
       (Panicked (MountOnExistingPath ''/admin''), adminSite)
   \<and> ''/admin/'' @ ''*'' \<in> route_pattern ` set (trees adminSite (tree (muxes adminSite 0)))
   \<and> Mount 0 ''/admin/'' (UserHandler 3) adminSite =
       (Panicked (MountOnExistingPath ''/admin/''), adminSite)"
proof -
  have a: "''/admin/'' @ ''*'' \<in> route_pattern ` set (trees adminSite (tree (muxes adminSite 0)))"
    by (simp add: adminSite_facts)
  have "Mount 0 ''/admin'' (UserHandler 3) adminSite =
       (Panicked (MountOnExistingPath ''/admin''), adminSite)"
    using Mount_rejects_existing [of "''/admin''" subSite 0 "MuxHandler 1" "()" adminSite
        "UserHandler 3"] Mount_adminSite
    by blast
  moreover have "Mount 0 ''/admin/'' (UserHandler 3) adminSite =
       (Panicked (MountOnExistingPath ''/admin/''), adminSite)"
    using Mount_rejects_existing [of "''/admin/''" adminSite 0 "UserHandler 3" "()" adminSite
        "UserHandler 3"] a
    by blast
  ultimately show ?thesis
    using a Mount_adminSite by simp
qed

text \<open>
  C4, as stated: for every \<^verbatim>\<open>Mount\<close> whose pattern does not end in a slash, three entries
  are registered, mapped to the forwarding handler, the not-found handler and the
  forwarding handler. It fails on an inline router: on the group site the inline router 1
  has the middleware 3, and \<^verbatim>\<open>Mount("/api", ...)\<close> on it stores the forwarding handler and
  the not-found handler wrapped in that middleware. It also fails for a pattern that
  \<^verbatim>\<open>handle\<close> rejects: \<^verbatim>\<open>Mount\<close> with the empty pattern panics and registers nothing.
\<close>

theorem Mount_three_entries_counterexample:
  "fst (Mount 1 ''/api'' (UserHandler 7) groupSite) = Returned ()
   \<and> map route_handler (trees (snd (Mount 1 ''/api'' (UserHandler 7) groupSite)) 0) =
       [Wrapped 3 (SubHandler (UserHandler 7)), Wrapped 3 HttpNotFound,
        Wrapped 3 (SubHandler (UserHandler 7))]
   \<and> route_handler (trees (snd (Mount 1 ''/api'' (UserHandler 7) groupSite)) 0 ! 0) \<noteq>
       SubHandler (UserHandler 7)
   \<and> route_handler (trees (snd (Mount 1 ''/api'' (UserHandler 7) groupSite)) 0 ! 1) \<noteq>
       HttpNotFound
   \<and> fst (Mount 0 [] (UserHandler 7) twoRouters) = Panicked (PatternNotRooted [])
   \<and> trees (snd (Mount 0 [] (UserHandler 7) twoRouters)) 0 = []"
  by (simp add: Mount_no_slash Mount_unrooted groupSite_facts twoRouters_facts findPattern_def
      inherited_def mounted_def stored_def NotFoundHandler_def chain_def)

text \<open>
  C4, amended. For a pattern that does not end in a slash: when the pattern begins with a
  slash and neither the pattern followed by \<^verbatim>\<open>*\<close> nor by \<^verbatim>\<open>/*\<close> is stored in the router's
  tree, \<^verbatim>\<open>Mount\<close> returns and has appended exactly three routes to that tree and changed no
  other tree: the pattern with \<^verbatim>\<open>ANY|_STUB\<close> and the forwarding handler, the pattern
  followed by a slash with \<^verbatim>\<open>ANY|_STUB\<close> and the not-found handler of the router, and the
  pattern followed by \<^verbatim>\<open>/*\<close> with the forwarding handler, \<^verbatim>\<open>ANY|_STUB\<close> and the sub-router
  reference when the mounted handler is a router, else \<^verbatim>\<open>ANY\<close> and no reference. Each
  handler is stored as it is when the receiver is not inline, and wrapped in the
  receiver's middlewares when it is inline. Otherwise \<^verbatim>\<open>Mount\<close> panics and no tree has
  changed.
\<close>

theorem Mount_registers_three:
  assumes "pat = [] \<or> last pat \<noteq> CHR ''/''"
  shows "(if pat \<noteq> [] \<and> hd pat = CHR ''/''
        \<and> pat @ ''*'' \<notin> route_pattern ` set (trees w (tree (muxes w m)))
        \<and> pat @ ''/*'' \<notin> route_pattern ` set (trees w (tree (muxes w m)))
     then fst (Mount m pat h w) = Returned ()
        \<and> trees (snd (Mount m pat h w)) =
            (trees w)(tree (muxes w m) := trees w (tree (muxes w m)) @
              [\<lparr>route_method = ANY \<union> {STUB}, route_pattern = pat,
                route_handler = stored (muxes w m) (SubHandler h), subrouter = None\<rparr>,
               \<lparr>route_method = ANY \<union> {STUB}, route_pattern = pat @ ''/'',
                route_handler = stored (muxes w m) (NotFoundHandler (muxes w m)),
                subrouter = None\<rparr>,
               \<lparr>route_method = (if mounted h \<noteq> None then ANY \<union> {STUB} else ANY),
                route_pattern = pat @ ''/*'',
                route_handler = stored (muxes w m) (SubHandler h), subrouter = mounted h\<rparr>])
     else (\<exists>e. fst (Mount m pat h w) = Panicked e) \<and> trees (snd (Mount m pat h w)) = trees w)"
proof (cases "findPattern (trees w (tree (muxes w m))) (pat @ ''*'') \<noteq> None
    \<or> findPattern (trees w (tree (muxes w m))) (pat @ ''/*'') \<noteq> None")
  case True
  then show ?thesis
    using Mount_conflict [OF True, of h] by (auto simp: findPattern_stored)
next
  case False
  then have nc: "findPattern (trees w (tree (muxes w m))) (pat @ ''*'') = None"
    "findPattern (trees w (tree (muxes w m))) (pat @ ''/*'') = None"
    by simp_all
  then have ns: "pat @ ''*'' \<notin> route_pattern ` set (trees w (tree (muxes w m)))"
    "pat @ ''/*'' \<notin> route_pattern ` set (trees w (tree (muxes w m)))"
    using findPattern_stored by blast+
  show ?thesis
  proof (cases "pat = [] \<or> hd pat \<noteq> CHR ''/''")
    case True
    then show ?thesis
      using Mount_unrooted [OF True nc, of h] by (auto simp: inherited_frame)
  next
    case False
    then have ro: "pat \<noteq> []" "hd pat = CHR ''/''"
      by simp_all
    with assms have la: "last pat \<noteq> CHR ''/''"
      by simp
    show ?thesis
      using ro ns by (simp add: Mount_no_slash [OF ro la nc])
  qed
qed

text \<open>
  \<^verbatim>\<open>Mount("/admin", ...)\<close> of the router 1 on the router 0 appends the three routes to the
  tree 0; \<^verbatim>\<open>Mount\<close> with a pattern that does not begin with a slash panics and changes no
  tree.
\<close>

theorem Mount_registers_three_witness:
  "fst (Mount 0 ''/admin'' (MuxHandler 1) subSite) = Returned ()
   \<and> trees (snd (Mount 0 ''/admin'' (MuxHandler 1) subSite)) 0 =
       [\<lparr>route_method = ANY \<union> {STUB}, route_pattern = ''/admin'',
         route_handler = SubHandler (MuxHandler 1), subrouter = None\<rparr>,
        \<lparr>route_method = ANY \<union> {STUB}, route_pattern = ''/admin/'',
         route_handler = HttpNotFound, subrouter = None\<rparr>,
        \<lparr>route_method = ANY \<union> {STUB}, route_pattern = ''/admin/*'',
         route_handler = SubHandler (MuxHandler 1), subrouter = Some 1\<rparr>]
   \<and> trees (snd (Mount 0 ''/admin'' (MuxHandler 1) subSite)) 1 = trees subSite 1
   \<and> (\<exists>e. fst (Mount 0 ''admin'' (MuxHandler 1) subSite) = Panicked e)
   \<and> trees (snd (Mount 0 ''admin'' (MuxHandler 1) subSite)) = trees subSite"
proof -
  have a: "''/admin'' = [] \<or> last ''/admin'' \<noteq> CHR ''/''"
    and b: "''admin'' = [] \<or> last ''admin'' \<noteq> CHR ''/''"
    by simp_all
  show ?thesis
    using Mount_registers_three [OF a, of subSite 0 "MuxHandler 1"]
      Mount_registers_three [OF b, of subSite 0 "MuxHandler 1"]
    by (simp add: subSite_facts stored_def mounted_def NotFoundHandler_def)
qed

end
